theory Spec2Isabelle
  imports Complex_Main
begin

section \<open>ASI camera service: data model\<close>

text \<open>
  The service of \<^verbatim>\<open>camera_service.py\<close> keeps its state in the module-level dictionary
  \<^verbatim>\<open>camera_state\<close> and in the single \<^verbatim>\<open>ASICamera\<close> object \<^verbatim>\<open>camera\<close>. Both are
  gathered in one record: fields \<open>cs_\<close> are the keys of the dictionary, fields \<open>cam_\<close>
  the attributes of the object. Python integers are unbounded, hence \<open>int\<close>.

  The vendor library is outside the program. Every call made to it is appended to
  \<open>trace\<close>, and what the library answers is read from a \<open>device\<close>: a function of the
  calls made so far. Each call lengthens the trace, so a device can answer every
  single call in any way; nothing is assumed about the hardware.

  Printing and sleeping change no field and are left out; the polling loops count
  their waiting time in the variable \<^verbatim>\<open>timeout\<close>, which is kept. A call to the
  library returns a result code and does not raise.
\<close>

subsection \<open>Constants of the SDK header, as the source lists them\<close>

abbreviation (input) ASI_SUCCESS :: int where "ASI_SUCCESS \<equiv> 0"
abbreviation (input) ASI_FALSE :: int where "ASI_FALSE \<equiv> 0"
abbreviation (input) ASI_TRUE :: int where "ASI_TRUE \<equiv> 1"
abbreviation (input) ASI_IMG_RGB24 :: int where "ASI_IMG_RGB24 \<equiv> 1"
abbreviation (input) ASI_GAIN :: int where "ASI_GAIN \<equiv> 0"
abbreviation (input) ASI_EXPOSURE :: int where "ASI_EXPOSURE \<equiv> 1"
abbreviation (input) ASI_BANDWIDTHOVERLOAD :: int where "ASI_BANDWIDTHOVERLOAD \<equiv> 6"
abbreviation (input) ASI_AUTO_MAX_EXP :: int where "ASI_AUTO_MAX_EXP \<equiv> 11"

subsection \<open>Calls to the SDK\<close>

text \<open>
  One constructor for each library function the service calls, with the arguments the
  source passes by value (output pointers are answered by the device).
\<close>

datatype sdk_call =
    ASIGetNumOfConnectedCameras
  | ASIGetCameraProperty int
  | ASIOpenCamera int
  | ASIInitCamera int
  | ASICloseCamera int
  | ASISetROIFormat int int int int int
  | ASISetControlValue int int int int
  | ASIGetControlValue int int
  | ASIStartVideoCapture int
  | ASIStopVideoCapture int
  | ASIGetVideoData int int int
  | ASIGetExpStatus int
  | ASIStopExposure int
  | ASIStartExposure int int
  | ASIGetDataAfterExp int int

text \<open>
  \<open>sdk_result h c\<close> is the integer the call \<open>c\<close> returns after the calls \<open>h\<close>;
  \<open>sdk_camera_info h\<close> is (CameraID, MaxWidth, MaxHeight) as \<^verbatim>\<open>ASIGetCameraProperty\<close>
  fills it in; \<open>sdk_exp_status h\<close> is the value \<^verbatim>\<open>status.value\<close> holds after
  \<^verbatim>\<open>ASIGetExpStatus\<close>; \<open>sdk_buffer h\<close> is the content of the byte buffer after a data call.
  \<open>lib_loaded\<close> says whether \<^verbatim>\<open>asi_lib\<close> is not \<^verbatim>\<open>None\<close>.
\<close>

record device =
  lib_loaded :: bool
  sdk_result :: "sdk_call list \<Rightarrow> sdk_call \<Rightarrow> int"
  sdk_camera_info :: "sdk_call list \<Rightarrow> int \<times> int \<times> int"
  sdk_exp_status :: "sdk_call list \<Rightarrow> int"
  sdk_buffer :: "sdk_call list \<Rightarrow> nat list"

subsection \<open>Frames, faults and the state\<close>

text \<open>
  A frame is the PIL image built from the buffer: height, width and the bytes. A PIL
  image is always truthy, so \<^verbatim>\<open>if img\<close> tests for \<^verbatim>\<open>None\<close> only.
\<close>

datatype image = Image (img_width: int) (img_height: int) (img_bytes: "nat list")

text \<open>The messages stored under \<^verbatim>\<open>camera_state['error']\<close>, with the code they format.\<close>

datatype fault =
    LibraryNotLoaded
  | NoCamerasFound
  | GetPropertiesFailed int
  | OpenCameraFailed int
  | InitCameraFailed int
  | StartVideoFailed int

text \<open>
  \<open>cam_capture_thread\<close> says whether \<^verbatim>\<open>self.capture_thread\<close> holds a thread object;
  \<open>threads_started\<close> counts the calls of \<^verbatim>\<open>Thread.start()\<close>.
\<close>

record world =
  cam_camera_id :: int
  cam_is_open :: bool
  cam_streaming :: bool
  cam_frame_buffer :: "image option"
  cam_capture_thread :: bool
  cs_connected :: bool
  cs_streaming :: bool
  cs_camera_id :: int
  cs_width :: int
  cs_height :: int
  cs_exposure :: int
  cs_video_exposure :: int
  cs_gain :: int
  cs_current_frame :: "image option"
  cs_error :: "fault option"
  trace :: "sdk_call list"
  threads_started :: nat

text \<open>The state at import time: the literal \<^verbatim>\<open>camera_state\<close> and \<^verbatim>\<open>ASICamera.__init__\<close>.\<close>

definition initial_world :: world where
  "initial_world =
     \<lparr>cam_camera_id = -1, cam_is_open = False, cam_streaming = False,
      cam_frame_buffer = None, cam_capture_thread = False,
      cs_connected = False, cs_streaming = False, cs_camera_id = -1,
      cs_width = 1280, cs_height = 960, cs_exposure = 1000000,
      cs_video_exposure = 100000, cs_gain = 50, cs_current_frame = None,
      cs_error = None, trace = [], threads_started = 0\<rparr>"

text \<open>Making a call whose result the source does not look at.\<close>

definition call :: "sdk_call \<Rightarrow> world \<Rightarrow> world" where
  "call c s = s\<lparr>trace := trace s @ [c]\<rparr>"

section \<open>ASICamera: connect, disconnect, start and stop of the stream\<close>

text \<open>
  \<^verbatim>\<open>connect\<close>: the first camera is queried, opened and initialised; every failure sets
  the error text and returns \<^verbatim>\<open>False\<close>. Printing is not modelled.
\<close>

definition connect :: "device \<Rightarrow> world \<Rightarrow> bool \<times> world" where
  "connect dev s =
    (if \<not> lib_loaded dev then (False, s\<lparr>cs_error := Some LibraryNotLoaded\<rparr>)
     else
       let num_cameras = sdk_result dev (trace s) ASIGetNumOfConnectedCameras;
           s1 = call ASIGetNumOfConnectedCameras s
       in if num_cameras = 0 then (False, s1\<lparr>cs_error := Some NoCamerasFound\<rparr>)
          else
            let (CameraID, MaxWidth, MaxHeight) = sdk_camera_info dev (trace s1);
                result = sdk_result dev (trace s1) (ASIGetCameraProperty 0);
                s2 = call (ASIGetCameraProperty 0) s1
            in if result \<noteq> ASI_SUCCESS
               then (False, s2\<lparr>cs_error := Some (GetPropertiesFailed result)\<rparr>)
               else
                 let s3 = s2\<lparr>cam_camera_id := CameraID, cs_camera_id := CameraID,
                              cs_width := MaxWidth, cs_height := MaxHeight\<rparr>;
                     result = sdk_result dev (trace s3) (ASIOpenCamera CameraID);
                     s4 = call (ASIOpenCamera CameraID) s3
                 in if result \<noteq> ASI_SUCCESS
                    then (False, s4\<lparr>cs_error := Some (OpenCameraFailed result)\<rparr>)
                    else
                      let result = sdk_result dev (trace s4) (ASIInitCamera CameraID);
                          s5 = call (ASIInitCamera CameraID) s4
                      in if result \<noteq> ASI_SUCCESS
                         then (False, call (ASICloseCamera CameraID)
                                        (s5\<lparr>cs_error := Some (InitCameraFailed result)\<rparr>))
                         else
                           let s6 = s5\<lparr>cam_is_open := True\<rparr>;
                               s7 = call (ASISetROIFormat CameraID MaxWidth MaxHeight 1 ASI_IMG_RGB24) s6;
                               s8 = call (ASISetControlValue CameraID ASI_GAIN 0 ASI_TRUE) s7;
                               s9 = call (ASISetControlValue CameraID ASI_EXPOSURE 0 ASI_TRUE) s8;
                               s10 = call (ASISetControlValue CameraID ASI_BANDWIDTHOVERLOAD 40 ASI_FALSE) s9;
                               s11 = call (ASISetControlValue CameraID ASI_GAIN (cs_gain s10) ASI_FALSE) s10;
                               s12 = call (ASIGetControlValue CameraID ASI_GAIN) s11
                           in (True, s12\<lparr>cs_connected := True, cs_error := None\<rparr>))"

text \<open>
  \<^verbatim>\<open>stop_stream\<close>: both streaming flags are cleared, the thread (if any) is joined for
  at most two seconds, which changes no field, and the video capture is stopped on an
  open handle with a non-negative id.
\<close>

definition stop_stream :: "world \<Rightarrow> world" where
  "stop_stream s =
    (let s1 = s\<lparr>cam_streaming := False, cs_streaming := False\<rparr>
     in if cam_is_open s1 \<and> cam_camera_id s1 \<ge> 0
        then call (ASIStopVideoCapture (cam_camera_id s1)) s1
        else s1)"

text \<open>\<^verbatim>\<open>disconnect\<close>: the stream is stopped, an open handle is closed, the flags cleared.\<close>

definition disconnect :: "world \<Rightarrow> world" where
  "disconnect s =
    (let s1 = stop_stream s;
         s2 = (if cam_is_open s1 \<and> cam_camera_id s1 \<ge> 0
               then (call (ASICloseCamera (cam_camera_id s1)) s1)\<lparr>cam_is_open := False\<rparr>
               else s1)
     in s2\<lparr>cs_connected := False, cs_streaming := False\<rparr>)"

text \<open>
  \<^verbatim>\<open>start_stream\<close>: on an open handle the exposure ceiling and auto exposure are set,
  then the video capture is started; only when the SDK accepts it are the flags set and
  the capture thread created and started.
\<close>

definition start_stream :: "device \<Rightarrow> world \<Rightarrow> bool \<times> world" where
  "start_stream dev s =
    (if \<not> cam_is_open s then (False, s)
     else
       let video_exposure = cs_video_exposure s;
           s1 = call (ASISetControlValue (cam_camera_id s) ASI_AUTO_MAX_EXP video_exposure ASI_FALSE) s;
           s2 = call (ASISetControlValue (cam_camera_id s1) ASI_EXPOSURE 0 ASI_TRUE) s1;
           result = sdk_result dev (trace s2) (ASIStartVideoCapture (cam_camera_id s2));
           s3 = call (ASIStartVideoCapture (cam_camera_id s2)) s2
       in if result \<noteq> ASI_SUCCESS
          then (False, s3\<lparr>cs_error := Some (StartVideoFailed result)\<rparr>)
          else (True, s3\<lparr>cam_streaming := True, cs_streaming := True,
                         cam_capture_thread := True,
                         threads_started := Suc (threads_started s3)\<rparr>))"

section \<open>The video-pull loop\<close>

text \<open>
  Python's \<^verbatim>\<open>int()\<close> on a float drops the fractional part (rounds towards zero).
\<close>

definition py_int :: "real \<Rightarrow> int" where
  "py_int x = (if 0 \<le> x then \<lfloor>x\<rfloor> else \<lceil>x\<rceil>)"

text \<open>
  The read timeout of one iteration, from \<^verbatim>\<open>camera_state['video_exposure']\<close>. The
  source divides by the float \<^verbatim>\<open>1000.0\<close>; the division is taken exactly here, which
  is what the float computation yields for every cap a double can hold.
\<close>

definition timeout_ms :: "int \<Rightarrow> int" where
  "timeout_ms video_exposure =
    (let video_exposure_ms = real_of_int video_exposure / 1000;
         t = py_int (video_exposure_ms * 2 + 500)
     in max 1000 (min t 5000))"

text \<open>
  The local variables of one run of \<^verbatim>\<open>_capture_loop\<close>. \<open>error_log\<close> lists the lines the
  loop prints: the result code and the count of consecutive errors.
\<close>

record loop_locals =
  ll_width :: int
  ll_height :: int
  ll_buffer_size :: int
  consecutive_errors :: int
  error_log :: "(int \<times> int) list"

definition loop_entry :: "world \<Rightarrow> loop_locals" where
  "loop_entry s =
     \<lparr>ll_width = cs_width s, ll_height = cs_height s,
      ll_buffer_size = cs_width s * cs_height s * 3,
      consecutive_errors = 0, error_log = []\<rparr>"

text \<open>The guard of the \<^verbatim>\<open>while\<close>, and one pass through its body.\<close>

definition loop_guard :: "world \<Rightarrow> bool" where
  "loop_guard s = (cam_streaming s \<and> cam_is_open s)"

definition capture_loop_body :: "device \<Rightarrow> loop_locals \<Rightarrow> world \<Rightarrow> loop_locals \<times> world" where
  "capture_loop_body dev l s =
    (let c = ASIGetVideoData (cam_camera_id s) (ll_buffer_size l) (timeout_ms (cs_video_exposure s));
         result = sdk_result dev (trace s) c;
         s1 = call c s
     in if result = ASI_SUCCESS then
          let img = Image (ll_width l) (ll_height l) (sdk_buffer dev (trace s))
          in (l\<lparr>consecutive_errors := 0\<rparr>,
              s1\<lparr>cam_frame_buffer := Some img, cs_current_frame := Some img\<rparr>)
        else if result \<noteq> 2 then
          let n = consecutive_errors l + 1
          in (l\<lparr>consecutive_errors := n,
                error_log := (if n = 1 \<or> n mod 10 = 0 then error_log l @ [(result, n)]
                              else error_log l)\<rparr>, s1)
        else (l, s1))"

text \<open>
  The loop on its own, with no other thread changing the flags: \<open>None\<close> means that it
  is still running after \<open>fuel\<close> passes, \<open>Some\<close> that the guard failed and it returned.
\<close>

fun capture_loop :: "nat \<Rightarrow> device \<Rightarrow> loop_locals \<Rightarrow> world \<Rightarrow> (loop_locals \<times> world) option" where
  "capture_loop 0 dev l s = (if loop_guard s then None else Some (l, s))"
| "capture_loop (Suc fuel) dev l s =
     (if loop_guard s
      then (case capture_loop_body dev l s of (l', s') \<Rightarrow> capture_loop fuel dev l' s')
      else Some (l, s))"

section \<open>Still capture\<close>

text \<open>
  The names the source gives to the result codes when \<^verbatim>\<open>ASIStartExposure\<close> fails
  (\<^verbatim>\<open>error_names\<close>); codes without a name give \<open>None\<close>, printed as UNKNOWN_ERROR.
\<close>

definition error_names :: "int \<Rightarrow> string option" where
  "error_names result =
    map_of [(1, ''ASI_ERROR_INVALID_INDEX''), (2, ''ASI_ERROR_INVALID_ID''),
            (3, ''ASI_ERROR_INVALID_CONTROL_TYPE''), (4, ''ASI_ERROR_CAMERA_CLOSED''),
            (5, ''ASI_ERROR_CAMERA_REMOVED''), (6, ''ASI_ERROR_INVALID_PATH''),
            (7, ''ASI_ERROR_INVALID_FILEFORMAT''), (8, ''ASI_ERROR_INVALID_SIZE''),
            (9, ''ASI_ERROR_INVALID_IMGTYPE''), (10, ''ASI_ERROR_OUTOF_BOUNDARY''),
            (11, ''ASI_ERROR_TIMEOUT''), (12, ''ASI_ERROR_INVALID_SEQUENCE''),
            (13, ''ASI_ERROR_BUFFER_TOO_SMALL''), (14, ''ASI_ERROR_VIDEO_MODE_ACTIVE''),
            (15, ''ASI_ERROR_EXPOSURE_IN_PROGRESS''), (16, ''ASI_ERROR_GENERAL_ERROR''),
            (17, ''ASI_ERROR_INVALID_MODE'')] result"

text \<open>
  Waiting for the camera to be idle: while the status is not 0 and fewer than 10000 ms
  were counted, sleep, read the status, add 100.
\<close>

function idle_wait :: "device \<Rightarrow> int \<Rightarrow> int \<Rightarrow> world \<Rightarrow> int \<times> world" where
  "idle_wait dev timeout status s =
    (if status \<noteq> 0 \<and> timeout < 10000
     then idle_wait dev (timeout + 100) (sdk_exp_status dev (trace s))
            (call (ASIGetExpStatus (cam_camera_id s)) s)
     else (status, s))"
  by pat_completeness auto
termination
  by (relation "measure (\<lambda>(dev, timeout, status, s). nat (10000 - timeout))") auto

declare idle_wait.simps [simp del]

definition wait_idle :: "device \<Rightarrow> world \<Rightarrow> world" where
  "wait_idle dev s =
    (let status = sdk_exp_status dev (trace s);
         s1 = call (ASIGetExpStatus (cam_camera_id s)) s
     in if status \<noteq> 0 then
          (case idle_wait dev 0 status s1 of
             (status', s2) \<Rightarrow>
               if status' \<noteq> 0 then call (ASIStopExposure (cam_camera_id s2)) s2 else s2)
        else s1)"

text \<open>
  Waiting for the exposure: while fewer than \<open>max_timeout\<close> ms were counted, read the
  status, leave the loop when it is 2, else sleep and add 100.
\<close>

function exposure_wait :: "device \<Rightarrow> int \<Rightarrow> int \<Rightarrow> int \<Rightarrow> world \<Rightarrow> int \<times> world" where
  "exposure_wait dev max_timeout timeout status s =
    (if timeout < max_timeout then
       (if sdk_exp_status dev (trace s) = 2
        then (sdk_exp_status dev (trace s), call (ASIGetExpStatus (cam_camera_id s)) s)
        else exposure_wait dev max_timeout (timeout + 100) (sdk_exp_status dev (trace s))
               (call (ASIGetExpStatus (cam_camera_id s)) s))
     else (status, s))"
  by pat_completeness auto
termination
  by (relation "measure (\<lambda>(dev, max_timeout, timeout, status, s). nat (max_timeout - timeout))") auto

declare exposure_wait.simps [simp del]

text \<open>\<^verbatim>\<open>capture_snapshot\<close>: \<open>None\<close> is Python's \<^verbatim>\<open>None\<close>, returned on every failure.\<close>

definition capture_snapshot :: "device \<Rightarrow> world \<Rightarrow> image option \<times> world" where
  "capture_snapshot dev s =
    (if \<not> cam_is_open s then (None, s)
     else
       let s1 = wait_idle dev s;
           exposure = cs_exposure s1;
           gain_val = cs_gain s1;
           s2 = call (ASISetControlValue (cam_camera_id s1) ASI_EXPOSURE exposure ASI_FALSE) s1;
           s3 = call (ASISetControlValue (cam_camera_id s2) ASI_GAIN gain_val ASI_FALSE) s2;
           result = sdk_result dev (trace s3) (ASIStartExposure (cam_camera_id s3) 0);
           s4 = call (ASIStartExposure (cam_camera_id s3) 0) s3
       in if result \<noteq> ASI_SUCCESS then (None, s4)
          else
            let max_timeout = exposure div 1000 + 5000
            in (case exposure_wait dev max_timeout 0 0 s4 of
                  (status, s5) \<Rightarrow>
                    if status \<noteq> 2 then (None, s5)
                    else
                      let width = cs_width s5;
                          height = cs_height s5;
                          buffer_size = width * height * 3;
                          result = sdk_result dev (trace s5)
                                     (ASIGetDataAfterExp (cam_camera_id s5) buffer_size);
                          s6 = call (ASIGetDataAfterExp (cam_camera_id s5) buffer_size) s5
                      in if result \<noteq> ASI_SUCCESS then (None, s6)
                         else (Some (Image width height (sdk_buffer dev (trace s5))), s6)))"

section \<open>The HTTP handlers\<close>

text \<open>
  \<^verbatim>\<open>GET /status\<close>. \<^verbatim>\<open>datetime.now()\<close> is read once for each of the two entries, so the
  handler takes the two readings of the clock (already in ISO format).
\<close>

record cam_entry =
  entry_connected :: bool
  entry_streaming :: bool
  lastSnapshot :: "string option"
  entry_fault :: "fault option"

record status_response =
  temperature :: "real option"
  humidity :: "real option"
  weatherCam :: cam_entry
  meteorCam :: cam_entry

definition get_status :: "string \<Rightarrow> string \<Rightarrow> world \<Rightarrow> status_response" where
  "get_status now1 now2 s =
     \<lparr>temperature = None, humidity = None,
      weatherCam = \<lparr>entry_connected = cs_connected s, entry_streaming = cs_streaming s,
                    lastSnapshot = (if cs_current_frame s \<noteq> None then Some now1 else None),
                    entry_fault = cs_error s\<rparr>,
      meteorCam = \<lparr>entry_connected = cs_connected s, entry_streaming = cs_streaming s,
                   lastSnapshot = (if cs_current_frame s \<noteq> None then Some now2 else None),
                   entry_fault = cs_error s\<rparr>\<rparr>"

text \<open>
  \<^verbatim>\<open>GET /camera/snapshot\<close>: the JPEG of the image (status 200) or an error text (status
  500). No modelled call raises, so the \<^verbatim>\<open>except\<close> branch is not entered.
\<close>

datatype snapshot_response = SnapshotJpeg image | SnapshotError string

definition snapshot :: "device \<Rightarrow> world \<Rightarrow> snapshot_response \<times> world" where
  "snapshot dev s =
    (if \<not> cs_connected s \<or> \<not> cam_is_open s then (SnapshotError ''Camera not connected'', s)
     else
       let was_streaming = cam_streaming s;
           s1 = (if was_streaming then stop_stream s else s)
       in (case capture_snapshot dev s1 of
             (img, s2) \<Rightarrow>
               let s3 = (if was_streaming then snd (start_stream dev s2) else s2)
               in (case img of
                     Some i \<Rightarrow> (SnapshotJpeg i, s3)
                   | None \<Rightarrow>
                       (SnapshotError ''Failed to capture snapshot - camera returned None'', s3))))"

text \<open>
  \<^verbatim>\<open>POST /camera/settings\<close>: the JSON body with its three optional integer keys, and
  the JSON answer.
\<close>

record settings_request =
  req_gain :: "int option"
  req_photo_exposure :: "int option"
  req_video_exposure :: "int option"

record settings_response =
  resp_success :: bool
  resp_gain :: int
  resp_exposure :: int
  resp_video_exposure :: int

definition update_settings :: "device \<Rightarrow> settings_request \<Rightarrow> world \<Rightarrow> settings_response \<times> world" where
  "update_settings dev data s =
    (let s1 = (case req_gain data of
                 None \<Rightarrow> s
               | Some gain \<Rightarrow>
                   let sa = s\<lparr>cs_gain := gain\<rparr>;
                       was_streaming = cs_streaming sa
                   in if cam_is_open sa then
                        let sb = (if was_streaming then stop_stream sa else sa);
                            sc = call (ASISetControlValue (cam_camera_id sb) ASI_GAIN gain ASI_FALSE) sb;
                            sd = call (ASIGetControlValue (cam_camera_id sc) ASI_GAIN) sc
                        in if was_streaming then snd (start_stream dev sd) else sd
                      else sa);
         s2 = (case req_photo_exposure data of
                 None \<Rightarrow> s1
               | Some exposure_us \<Rightarrow> s1\<lparr>cs_exposure := exposure_us\<rparr>);
         s3 = (case req_video_exposure data of
                 None \<Rightarrow> s2
               | Some video_exposure_us \<Rightarrow>
                   let sa = s2\<lparr>cs_video_exposure := video_exposure_us\<rparr>;
                       was_streaming = cs_streaming sa
                   in if cam_is_open sa then
                        let sb = (if was_streaming then stop_stream sa else sa);
                            sc = call (ASISetControlValue (cam_camera_id sb) ASI_AUTO_MAX_EXP
                                         video_exposure_us ASI_FALSE) sb;
                            sd = call (ASIGetControlValue (cam_camera_id sc) ASI_AUTO_MAX_EXP) sc
                        in if was_streaming then snd (start_stream dev sd) else sd
                      else sa)
     in (\<lparr>resp_success = True, resp_gain = cs_gain s3, resp_exposure = cs_exposure s3,
          resp_video_exposure = cs_video_exposure s3\<rparr>, s3))"

section \<open>Histories of the service\<close>

text \<open>
  What can happen to the state: a request is served, or a capture thread makes one pass
  through its loop (with whatever local variables it has at that moment).
\<close>

datatype action =
    DoConnect
  | DoDisconnect
  | DoStartStream
  | DoStopStream
  | DoSnapshot
  | DoSettings settings_request
  | DoLoopPass loop_locals

fun step :: "device \<Rightarrow> action \<Rightarrow> world \<Rightarrow> world" where
  "step dev DoConnect s = snd (connect dev s)"
| "step dev DoDisconnect s = disconnect s"
| "step dev DoStartStream s = snd (start_stream dev s)"
| "step dev DoStopStream s = stop_stream s"
| "step dev DoSnapshot s = snd (snapshot dev s)"
| "step dev (DoSettings data) s = snd (update_settings dev data s)"
| "step dev (DoLoopPass l) s = (if loop_guard s then snd (capture_loop_body dev l s) else s)"

fun run :: "device \<Rightarrow> action list \<Rightarrow> world \<Rightarrow> world" where
  "run dev [] s = s"
| "run dev (a # as) s = run dev as (step dev a s)"

text \<open>
  A frame is stored by an action when it is a pass of the loop that is entered and whose
  read succeeds: the one place where the source assigns \<^verbatim>\<open>camera_state['current_frame']\<close>.
\<close>

fun stores_frame :: "device \<Rightarrow> action \<Rightarrow> world \<Rightarrow> bool" where
  "stores_frame dev (DoLoopPass l) s =
     (loop_guard s \<and>
      sdk_result dev (trace s)
        (ASIGetVideoData (cam_camera_id s) (ll_buffer_size l) (timeout_ms (cs_video_exposure s)))
        = ASI_SUCCESS)"
| "stores_frame dev a s = False"

fun frame_ever_stored :: "device \<Rightarrow> action list \<Rightarrow> world \<Rightarrow> bool" where
  "frame_ever_stored dev [] s = False"
| "frame_ever_stored dev (a # as) s =
     (stores_frame dev a s \<or> frame_ever_stored dev as (step dev a s))"

section \<open>Notions used to state the properties\<close>

text \<open>
  The timeout as the specification words it, over the reals:
  \<open>clamp (cap_ms * 2 + 500, 1000, 5000)\<close>.
\<close>

definition spec_timeout_ms :: "real \<Rightarrow> real" where
  "spec_timeout_ms cap_ms = max 1000 (min (cap_ms * 2 + 500) 5000)"

text \<open>\<open>only_trace s s'\<close>: the two states differ at most in the calls recorded.\<close>

definition only_trace :: "world \<Rightarrow> world \<Rightarrow> bool" where
  "only_trace s s' = (s' = s\<lparr>trace := trace s'\<rparr>)"

text \<open>
  States and devices used as examples. \<open>steady_device\<close> accepts every call, reports one
  camera of 2 x 1 pixels and an exposure that has succeeded right after it was started;
  \<open>answering r\<close> returns \<open>r\<close> from every call. \<open>connected_world\<close> is the state after a
  successful \<^verbatim>\<open>connect\<close> at start-up and \<open>streaming_world\<close> the state after
  \<^verbatim>\<open>start_stream\<close> from there, as proved below.
\<close>

definition steady_device :: device where
  "steady_device =
     \<lparr>lib_loaded = True,
      sdk_result = (\<lambda>h c. if c = ASIGetNumOfConnectedCameras then 1 else 0),
      sdk_camera_info = (\<lambda>h. (0, 2, 1)),
      sdk_exp_status = (\<lambda>h. if h \<noteq> [] \<and> last h = ASIStartExposure 0 0 then 2 else 0),
      sdk_buffer = (\<lambda>h. [10, 20, 30, 40, 50, 60])\<rparr>"

definition answering :: "int \<Rightarrow> device" where
  "answering r = steady_device\<lparr>sdk_result := (\<lambda>h c. r)\<rparr>"

definition connected_world :: world where
  "connected_world =
     \<lparr>cam_camera_id = 0, cam_is_open = True, cam_streaming = False,
      cam_frame_buffer = None, cam_capture_thread = False,
      cs_connected = True, cs_streaming = False, cs_camera_id = 0,
      cs_width = 2, cs_height = 1, cs_exposure = 1000000,
      cs_video_exposure = 100000, cs_gain = 50, cs_current_frame = None,
      cs_error = None,
      trace = [ASIGetNumOfConnectedCameras, ASIGetCameraProperty 0, ASIOpenCamera 0,
               ASIInitCamera 0, ASISetROIFormat 0 2 1 1 1, ASISetControlValue 0 0 0 1,
               ASISetControlValue 0 1 0 1, ASISetControlValue 0 6 40 0,
               ASISetControlValue 0 0 50 0, ASIGetControlValue 0 0],
      threads_started = 0\<rparr>"

definition streaming_world :: world where
  "streaming_world =
     connected_world\<lparr>cam_streaming := True, cs_streaming := True, cam_capture_thread := True,
       threads_started := 1,
       trace := trace connected_world @
         [ASISetControlValue 0 11 100000 0, ASISetControlValue 0 1 0 1, ASIStartVideoCapture 0]\<rparr>"

text \<open>\<open>refusing c r\<close> answers \<open>r\<close> to the call \<open>c\<close> and accepts every other call.\<close>

definition refusing :: "sdk_call \<Rightarrow> int \<Rightarrow> device" where
  "refusing c r = steady_device\<lparr>sdk_result := (\<lambda>h c'. if c' = c then r else 0)\<rparr>"

text \<open>A call that sets the exposure time as an explicit (not automatic) value.\<close>

fun explicit_exposure_call :: "sdk_call \<Rightarrow> bool" where
  "explicit_exposure_call (ASISetControlValue cid control v auto) =
     (control = ASI_EXPOSURE \<and> auto = ASI_FALSE)"
| "explicit_exposure_call c = False"

text \<open>
  Names for two moments of \<^verbatim>\<open>capture_snapshot\<close> on an open handle: \<open>before_exposure\<close>
  is the state when exposure and gain have been set, \<open>exposure_started\<close> the state when
  \<^verbatim>\<open>ASIStartExposure\<close> has been called. \<open>poll_status dev s k\<close> is the status that poll
  number \<open>k\<close> of the exposure (counted from 0) reads, and \<open>polls_allowed\<close> the number of
  passes a loop counting by 100 from 0 makes below the deadline.
\<close>

definition before_exposure :: "device \<Rightarrow> world \<Rightarrow> world" where
  "before_exposure dev s =
     call (ASISetControlValue (cam_camera_id s) ASI_GAIN (cs_gain s) ASI_FALSE)
       (call (ASISetControlValue (cam_camera_id s) ASI_EXPOSURE (cs_exposure s) ASI_FALSE)
          (wait_idle dev s))"

definition exposure_started :: "device \<Rightarrow> world \<Rightarrow> world" where
  "exposure_started dev s = call (ASIStartExposure (cam_camera_id s) 0) (before_exposure dev s)"

definition poll_status :: "device \<Rightarrow> world \<Rightarrow> nat \<Rightarrow> int" where
  "poll_status dev s k =
     sdk_exp_status dev
       (trace (exposure_started dev s) @ replicate k (ASIGetExpStatus (cam_camera_id s)))"

definition polls_allowed :: "int \<Rightarrow> nat" where
  "polls_allowed max_timeout = nat ((max_timeout + 99) div 100)"

text \<open>\<open>failing_exposure\<close>: every exposure that is started is reported as failed (status 3).\<close>

definition failing_exposure :: device where
  "failing_exposure =
     steady_device\<lparr>sdk_exp_status := (\<lambda>h. if ASIStartExposure 0 0 \<in> set h then 3 else 0)\<rparr>"

section \<open>Basic facts\<close>

lemma call_fields [simp]:
  "cam_camera_id (call c s) = cam_camera_id s"
  "cam_is_open (call c s) = cam_is_open s"
  "cam_streaming (call c s) = cam_streaming s"
  "cam_frame_buffer (call c s) = cam_frame_buffer s"
  "cam_capture_thread (call c s) = cam_capture_thread s"
  "cs_connected (call c s) = cs_connected s"
  "cs_streaming (call c s) = cs_streaming s"
  "cs_camera_id (call c s) = cs_camera_id s"
  "cs_width (call c s) = cs_width s"
  "cs_height (call c s) = cs_height s"
  "cs_exposure (call c s) = cs_exposure s"
  "cs_video_exposure (call c s) = cs_video_exposure s"
  "cs_gain (call c s) = cs_gain s"
  "cs_current_frame (call c s) = cs_current_frame s"
  "cs_error (call c s) = cs_error s"
  "threads_started (call c s) = threads_started s"
  "trace (call c s) = trace s @ [c]"
  by (simp_all add: call_def)

section \<open>The read timeout of the video-pull loop\<close>

lemma py_int_mono: "x \<le> y \<Longrightarrow> py_int x \<le> py_int y"
proof -
  assume le: "x \<le> y"
  consider (pos) "0 \<le> x" | (neg) "y < 0" | (mixed) "x < 0" "0 \<le> y"
    by linarith
  then show ?thesis
  proof cases
    case pos
    with le have "0 \<le> y" by simp
    with pos le show ?thesis by (simp add: py_int_def floor_mono)
  next
    case neg
    with le have "x < 0" by simp
    with neg le show ?thesis by (simp add: py_int_def ceiling_mono)
  next
    case mixed
    have "\<lceil>x\<rceil> \<le> 0" using mixed(1) by (simp add: ceiling_le_zero)
    moreover have "0 \<le> \<lfloor>y\<rfloor>" using mixed(2) by simp
    moreover have "py_int x = \<lceil>x\<rceil>" using mixed(1) by (simp add: py_int_def)
    moreover have "py_int y = \<lfloor>y\<rfloor>" using mixed(2) by (simp add: py_int_def)
    ultimately show ?thesis by linarith
  qed
qed

text \<open>Truncating and then clamping between two integers is clamping and then rounding down.\<close>

lemma py_int_clamp: "max 1000 (min (py_int x) 5000) = \<lfloor>max 1000 (min x 5000)\<rfloor>"
proof -
  consider (low) "x < 1000" | (mid) "1000 \<le> x" "x \<le> 5000" | (high) "5000 < x"
    by linarith
  then show ?thesis
  proof cases
    case low
    have "py_int x \<le> 1000"
    proof (cases "0 \<le> x")
      case True
      then show ?thesis using low by (simp add: py_int_def floor_le_iff)
    next
      case False
      then have "\<lceil>x\<rceil> \<le> 0" by (simp add: ceiling_le_zero)
      then show ?thesis using False by (simp add: py_int_def)
    qed
    then show ?thesis using low by (simp add: max_def min_def)
  next
    case mid
    have "1000 \<le> \<lfloor>x\<rfloor>" using mid(1) by (simp add: le_floor_iff)
    moreover have "\<lfloor>x\<rfloor> \<le> 5000" using mid(2) by (simp add: floor_le_iff)
    ultimately show ?thesis using mid by (simp add: py_int_def max_def min_def)
  next
    case high
    have "5000 \<le> \<lfloor>x\<rfloor>" using high by (simp add: le_floor_iff)
    then have "min (py_int x) 5000 = 5000" using high by (simp add: py_int_def)
    moreover have "min x 5000 = 5000" using high by simp
    ultimately show ?thesis by simp
  qed
qed

lemma timeout_ms_spec: "timeout_ms cap = \<lfloor>spec_timeout_ms (real_of_int cap / 1000)\<rfloor>"
  by (simp add: timeout_ms_def spec_timeout_ms_def Let_def py_int_clamp)

lemma timeout_ms_bounds: "1000 \<le> timeout_ms cap \<and> timeout_ms cap \<le> 5000"
  by (simp add: timeout_ms_def Let_def)

lemma timeout_ms_mono: "cap \<le> cap' \<Longrightarrow> timeout_ms cap \<le> timeout_ms cap'"
proof -
  assume le: "cap \<le> cap'"
  have "real_of_int cap / 1000 * 2 + 500 \<le> real_of_int cap' / 1000 * 2 + 500"
    using le by simp
  then have "py_int (real_of_int cap / 1000 * 2 + 500) \<le> py_int (real_of_int cap' / 1000 * 2 + 500)"
    by (rule py_int_mono)
  then show ?thesis
    by (simp add: timeout_ms_def Let_def)
qed

lemma capture_loop_body_trace:
  "trace (snd (capture_loop_body dev l s)) =
     trace s @ [ASIGetVideoData (cam_camera_id s) (ll_buffer_size l)
                  (timeout_ms (cs_video_exposure s))]"
  by (simp add: capture_loop_body_def Let_def)

text \<open>
  C5. Each pass of the video-pull loop reads a frame with the timeout
  \<open>clamp (cap_ms * 2 + 500, 1000, 5000)\<close> milliseconds (rounded down to an integer),
  where \<open>cap_ms\<close> is the streaming-exposure cap divided by 1000; this timeout lies
  between 1000 and 5000 and never decreases when the cap grows.
\<close>

theorem timeout_ms_clamped_monotone:
  "trace (snd (capture_loop_body dev l s)) =
     trace s @ [ASIGetVideoData (cam_camera_id s) (ll_buffer_size l)
                  (timeout_ms (cs_video_exposure s))]
   \<and> timeout_ms cap = \<lfloor>spec_timeout_ms (real_of_int cap / 1000)\<rfloor>
   \<and> 1000 \<le> timeout_ms cap \<and> timeout_ms cap \<le> 5000
   \<and> (cap \<le> cap' \<longrightarrow> timeout_ms cap \<le> timeout_ms cap')"
  using capture_loop_body_trace timeout_ms_spec timeout_ms_bounds timeout_ms_mono
  by blast

theorem timeout_ms_clamped_monotone_witness:
  "(300000::int) \<le> 600000 \<and> timeout_ms 300000 \<le> timeout_ms 600000
   \<and> timeout_ms 300000 = 1100 \<and> timeout_ms 600000 = 1700"
  using timeout_ms_clamped_monotone [where cap = 300000 and cap' = 600000]
  by (simp add: timeout_ms_def py_int_def)

text \<open>The example states are states the service reaches.\<close>

lemma connect_reaches_connected_world:
  "connect steady_device initial_world = (True, connected_world)"
  by (simp add: connect_def steady_device_def initial_world_def connected_world_def call_def Let_def)

lemma start_stream_reaches_streaming_world:
  "start_stream steady_device connected_world = (True, streaming_world)"
  by (simp add: start_stream_def steady_device_def streaming_world_def connected_world_def call_def Let_def)

section \<open>States that differ only in the recorded calls\<close>

lemma only_trace_refl [simp]: "only_trace s s"
  by (simp add: only_trace_def)

lemma only_trace_iff: "only_trace s s' = (\<exists>t. s' = s\<lparr>trace := t\<rparr>)"
  by (auto simp add: only_trace_def)

lemma only_trace_call: "only_trace s s' \<Longrightarrow> only_trace s (call c s')"
  by (auto simp add: only_trace_iff call_def)

lemma only_trace_trans: "only_trace s s' \<Longrightarrow> only_trace s' s'' \<Longrightarrow> only_trace s s''"
  by (auto simp add: only_trace_iff)

lemma only_trace_fields:
  assumes "only_trace s s'"
  shows "cam_camera_id s' = cam_camera_id s" "cam_is_open s' = cam_is_open s"
    "cam_streaming s' = cam_streaming s" "cam_frame_buffer s' = cam_frame_buffer s"
    "cam_capture_thread s' = cam_capture_thread s" "cs_connected s' = cs_connected s"
    "cs_streaming s' = cs_streaming s" "cs_camera_id s' = cs_camera_id s"
    "cs_width s' = cs_width s" "cs_height s' = cs_height s"
    "cs_exposure s' = cs_exposure s" "cs_video_exposure s' = cs_video_exposure s"
    "cs_gain s' = cs_gain s" "cs_current_frame s' = cs_current_frame s"
    "cs_error s' = cs_error s" "threads_started s' = threads_started s"
  using assms by (auto simp add: only_trace_iff)

lemma idle_wait_only_trace: "only_trace s (snd (idle_wait dev timeout status s))"
proof (induction dev timeout status s rule: idle_wait.induct)
  case (1 dev timeout status s)
  show ?case
  proof (cases "status \<noteq> 0 \<and> timeout < 10000")
    case True
    have "only_trace s (call (ASIGetExpStatus (cam_camera_id s)) s)"
      by (simp add: only_trace_call)
    then show ?thesis
      using True "1.IH" only_trace_trans by (subst idle_wait.simps) auto
  next
    case False
    then show ?thesis by (subst idle_wait.simps) auto
  qed
qed

lemma exposure_wait_only_trace: "only_trace s (snd (exposure_wait dev max_timeout timeout status s))"
proof (induction dev max_timeout timeout status s rule: exposure_wait.induct)
  case (1 dev max_timeout timeout status s)
  have c: "only_trace s (call (ASIGetExpStatus (cam_camera_id s)) s)"
    by (simp add: only_trace_call)
  show ?case
  proof (cases "timeout < max_timeout")
    case True
    show ?thesis
    proof (cases "sdk_exp_status dev (trace s) = 2")
      case True
      with \<open>timeout < max_timeout\<close> c show ?thesis by (subst exposure_wait.simps) simp
    next
      case False
      with \<open>timeout < max_timeout\<close> c "1.IH" only_trace_trans show ?thesis
        by (subst exposure_wait.simps) auto
    qed
  next
    case False
    then show ?thesis by (subst exposure_wait.simps) auto
  qed
qed

lemma wait_idle_only_trace: "only_trace s (wait_idle dev s)"
proof -
  let ?s1 = "call (ASIGetExpStatus (cam_camera_id s)) s"
  have a: "only_trace s ?s1" by (simp add: only_trace_call)
  have b: "only_trace s (snd (idle_wait dev 0 st ?s1))" for st
    using a idle_wait_only_trace only_trace_trans by blast
  then have "only_trace s (call c (snd (idle_wait dev 0 st ?s1)))" for st c
    by (simp add: only_trace_call)
  with a b show ?thesis
    by (simp add: wait_idle_def Let_def split: prod.splits) (metis snd_conv)
qed

lemma capture_snapshot_only_trace: "only_trace s (snd (capture_snapshot dev s))"
proof (cases "cam_is_open s")
  case False
  then show ?thesis by (simp add: capture_snapshot_def)
next
  case True
  let ?s1 = "wait_idle dev s"
  let ?s4 = "call (ASIStartExposure (cam_camera_id ?s1) 0)
              (call (ASISetControlValue (cam_camera_id ?s1) ASI_GAIN (cs_gain ?s1) ASI_FALSE)
                (call (ASISetControlValue (cam_camera_id ?s1) ASI_EXPOSURE (cs_exposure ?s1) ASI_FALSE) ?s1))"
  have s4: "only_trace s ?s4"
    by (intro only_trace_call wait_idle_only_trace)
  have s5: "only_trace s (snd (exposure_wait dev m 0 0 ?s4))" for m
    using s4 exposure_wait_only_trace only_trace_trans by blast
  have s6: "only_trace s (call c (snd (exposure_wait dev m 0 0 ?s4)))" for m c
    using s5 by (simp add: only_trace_call)
  show ?thesis
    using True s4 s5 s6
    by (simp add: capture_snapshot_def Let_def split: prod.splits) (metis snd_conv)
qed

section \<open>Errors in the video-pull loop\<close>

text \<open>
  A pass of the loop changes neither flag of its guard, so the loop never returns of its
  own accord, whatever the reads return.
\<close>

lemma capture_loop_body_guard: "loop_guard (snd (capture_loop_body dev l s)) = loop_guard s"
  by (simp add: capture_loop_body_def loop_guard_def Let_def)

lemma capture_loop_keeps_running: "loop_guard s \<Longrightarrow> capture_loop fuel dev l s = None"
proof (induction fuel arbitrary: l s)
  case 0
  then show ?case by simp
next
  case (Suc fuel)
  obtain l' s' where b: "capture_loop_body dev l s = (l', s')"
    by (cases "capture_loop_body dev l s")
  then have "loop_guard s'" using Suc.prems capture_loop_body_guard [of dev l s] by simp
  then show ?case using Suc.IH b Suc.prems by simp
qed

text \<open>
  A failed read other than code 2 raises the counter by one and is logged when the new
  count is 1 or a multiple of 10; a successful read resets the counter.
\<close>

lemma capture_loop_body_counter:
  "consecutive_errors (fst (capture_loop_body dev l s)) =
     (let result = sdk_result dev (trace s)
            (ASIGetVideoData (cam_camera_id s) (ll_buffer_size l) (timeout_ms (cs_video_exposure s)))
      in if result = ASI_SUCCESS then 0
         else if result \<noteq> 2 then consecutive_errors l + 1
         else consecutive_errors l)
   \<and> error_log (fst (capture_loop_body dev l s)) =
     (let result = sdk_result dev (trace s)
            (ASIGetVideoData (cam_camera_id s) (ll_buffer_size l) (timeout_ms (cs_video_exposure s)));
          n = consecutive_errors l + 1
      in if result \<noteq> ASI_SUCCESS \<and> result \<noteq> 2 \<and> (n = 1 \<or> n mod 10 = 0)
         then error_log l @ [(result, n)]
         else error_log l)"
  by (simp add: capture_loop_body_def Let_def)

text \<open>
  C1. The claim: a read that times out does not count as an error in the video-pull loop,
  every other failed read does. The source's own table of result codes names 11 the
  timeout and 2 an invalid id, but the loop exempts code 2: a read returning 11 on a
  fresh loop raises the counter to 1 and is logged, a read returning 2 is not counted.
\<close>

theorem capture_loop_counts_timeout_code:
  "error_names 11 = Some ''ASI_ERROR_TIMEOUT''
   \<and> error_names 2 = Some ''ASI_ERROR_INVALID_ID''
   \<and> fst (capture_loop_body (answering 11) (loop_entry streaming_world) streaming_world)
       = (loop_entry streaming_world)\<lparr>consecutive_errors := 1, error_log := [(11, 1)]\<rparr>
   \<and> fst (capture_loop_body (answering 2) (loop_entry streaming_world) streaming_world)
       = loop_entry streaming_world"
  by (simp add: error_names_def capture_loop_body_def loop_entry_def answering_def steady_device_def Let_def)

section \<open>Starting the stream\<close>

text \<open>
  C6. \<^verbatim>\<open>start_stream\<close> returns \<^verbatim>\<open>False\<close> and changes nothing when the handle is not
  open; when the handle is open and the SDK rejects the start of the video capture it
  returns \<^verbatim>\<open>False\<close>, leaves both streaming flags as they were and starts no thread.
\<close>

theorem start_stream_failure_leaves_idle:
  "(\<not> cam_is_open s \<longrightarrow> start_stream dev s = (False, s))
   \<and> (cam_is_open s
        \<and> sdk_result dev
             (trace s @ [ASISetControlValue (cam_camera_id s) ASI_AUTO_MAX_EXP (cs_video_exposure s) ASI_FALSE,
                         ASISetControlValue (cam_camera_id s) ASI_EXPOSURE 0 ASI_TRUE])
             (ASIStartVideoCapture (cam_camera_id s)) \<noteq> ASI_SUCCESS
      \<longrightarrow> fst (start_stream dev s) = False
          \<and> cam_streaming (snd (start_stream dev s)) = cam_streaming s
          \<and> cs_streaming (snd (start_stream dev s)) = cs_streaming s
          \<and> cam_capture_thread (snd (start_stream dev s)) = cam_capture_thread s
          \<and> threads_started (snd (start_stream dev s)) = threads_started s)"
  by (simp add: start_stream_def Let_def)

theorem start_stream_failure_leaves_idle_witness:
  "\<not> cam_is_open initial_world
   \<and> start_stream steady_device initial_world = (False, initial_world)
   \<and> cam_is_open connected_world
   \<and> sdk_result (answering 16)
        (trace connected_world @ [ASISetControlValue (cam_camera_id connected_world) ASI_AUTO_MAX_EXP (cs_video_exposure connected_world) ASI_FALSE,
                         ASISetControlValue (cam_camera_id connected_world) ASI_EXPOSURE 0 ASI_TRUE])
             (ASIStartVideoCapture (cam_camera_id connected_world)) \<noteq> ASI_SUCCESS
   \<and> fst (start_stream (answering 16) connected_world) = False
   \<and> \<not> cam_streaming (snd (start_stream (answering 16) connected_world))
   \<and> \<not> cs_streaming (snd (start_stream (answering 16) connected_world))
   \<and> threads_started (snd (start_stream (answering 16) connected_world)) = 0"
  using start_stream_failure_leaves_idle [of initial_world steady_device]
    start_stream_failure_leaves_idle [of connected_world "answering 16"]
  by (simp add: initial_world_def connected_world_def answering_def steady_device_def)

section \<open>Disconnecting\<close>

text \<open>
  C9. Disconnecting twice is disconnecting once. On a closed handle \<^verbatim>\<open>disconnect\<close>
  makes no call to the SDK and only clears the three flags; when they are already
  cleared the state is left as it is.
\<close>

theorem disconnect_idempotent:
  "disconnect (disconnect s) = disconnect s
   \<and> (\<not> cam_is_open s \<longrightarrow>
        trace (disconnect s) = trace s
        \<and> disconnect s = s\<lparr>cam_streaming := False, cs_connected := False, cs_streaming := False\<rparr>)
   \<and> (\<not> cam_is_open s \<and> \<not> cs_connected s \<and> \<not> cam_streaming s \<and> \<not> cs_streaming s \<longrightarrow>
        disconnect s = s)"
  by (simp add: disconnect_def stop_stream_def call_def Let_def)

theorem disconnect_idempotent_witness:
  "\<not> cam_is_open initial_world \<and> \<not> cs_connected initial_world
   \<and> \<not> cam_streaming initial_world \<and> \<not> cs_streaming initial_world
   \<and> disconnect initial_world = initial_world
   \<and> trace (disconnect initial_world) = trace initial_world
   \<and> disconnect (disconnect streaming_world) = disconnect streaming_world"
  using disconnect_idempotent [of initial_world] disconnect_idempotent [of streaming_world]
  by (simp add: initial_world_def)

section \<open>What stopping and starting the stream leave alone\<close>

lemma stop_stream_settings [simp]:
  "cs_gain (stop_stream s) = cs_gain s"
  "cs_exposure (stop_stream s) = cs_exposure s"
  "cs_video_exposure (stop_stream s) = cs_video_exposure s"
  "cs_current_frame (stop_stream s) = cs_current_frame s"
  "cam_frame_buffer (stop_stream s) = cam_frame_buffer s"
  "cam_is_open (stop_stream s) = cam_is_open s"
  "cam_camera_id (stop_stream s) = cam_camera_id s"
  "cs_connected (stop_stream s) = cs_connected s"
  "cs_streaming (stop_stream s) = False"
  "cam_streaming (stop_stream s) = False"
  by (simp_all add: stop_stream_def Let_def)

lemma start_stream_settings [simp]:
  "cs_gain (snd (start_stream dev s)) = cs_gain s"
  "cs_exposure (snd (start_stream dev s)) = cs_exposure s"
  "cs_video_exposure (snd (start_stream dev s)) = cs_video_exposure s"
  "cs_current_frame (snd (start_stream dev s)) = cs_current_frame s"
  "cam_frame_buffer (snd (start_stream dev s)) = cam_frame_buffer s"
  "cam_is_open (snd (start_stream dev s)) = cam_is_open s"
  "cam_camera_id (snd (start_stream dev s)) = cam_camera_id s"
  "cs_connected (snd (start_stream dev s)) = cs_connected s"
  by (simp_all add: start_stream_def Let_def)

section \<open>Updating the settings\<close>

lemma update_settings_gain_only:
  "cs_gain (snd (update_settings dev \<lparr>req_gain = Some g, req_photo_exposure = None, req_video_exposure = None\<rparr> s)) = g"
  "cs_exposure (snd (update_settings dev \<lparr>req_gain = Some g, req_photo_exposure = None, req_video_exposure = None\<rparr> s)) = cs_exposure s"
  "cs_video_exposure (snd (update_settings dev \<lparr>req_gain = Some g, req_photo_exposure = None, req_video_exposure = None\<rparr> s)) = cs_video_exposure s"
  by (simp_all add: update_settings_def Let_def)

lemma update_settings_response:
  "fst (update_settings dev data s) =
     \<lparr>resp_success = True, resp_gain = cs_gain (snd (update_settings dev data s)),
      resp_exposure = cs_exposure (snd (update_settings dev data s)),
      resp_video_exposure = cs_video_exposure (snd (update_settings dev data s))\<rparr>"
  by (simp add: update_settings_def Let_def)

section \<open>The frame of a snapshot\<close>

lemma exposure_wait_success_now:
  "timeout < max_timeout \<Longrightarrow> sdk_exp_status dev (trace s) = 2 \<Longrightarrow>
   exposure_wait dev max_timeout timeout status s = (2, call (ASIGetExpStatus (cam_camera_id s)) s)"
  by (subst exposure_wait.simps) simp

lemma snapshot_only_frames:
  "cs_current_frame (snd (snapshot dev s)) = cs_current_frame s
   \<and> cam_frame_buffer (snd (snapshot dev s)) = cam_frame_buffer s"
proof (cases "\<not> cs_connected s \<or> \<not> cam_is_open s")
  case True
  then show ?thesis by (auto simp add: snapshot_def)
next
  case False
  let ?s1 = "if cam_streaming s then stop_stream s else s"
  obtain img s2 where c: "capture_snapshot dev ?s1 = (img, s2)"
    by (cases "capture_snapshot dev ?s1")
  have "only_trace ?s1 s2"
    using capture_snapshot_only_trace [of ?s1 dev] c by simp
  then have f: "cs_current_frame s2 = cs_current_frame ?s1" "cam_frame_buffer s2 = cam_frame_buffer ?s1"
    by (simp_all add: only_trace_fields)
  have g: "cs_current_frame ?s1 = cs_current_frame s" "cam_frame_buffer ?s1 = cam_frame_buffer s"
    by simp_all
  show ?thesis
    using False c f g by (cases img) (simp_all add: snapshot_def Let_def)
qed

text \<open>A capture on the example device, evaluated.\<close>

lemma capture_steady:
  "capture_snapshot steady_device connected_world =
     (Some (Image 2 1 [10, 20, 30, 40, 50, 60]),
      connected_world\<lparr>trace := trace connected_world @
         [ASIGetExpStatus 0, ASISetControlValue 0 1 1000000 0, ASISetControlValue 0 0 50 0,
          ASIStartExposure 0 0, ASIGetExpStatus 0, ASIGetDataAfterExp 0 6]\<rparr>)"
  by (simp add: capture_snapshot_def wait_idle_def exposure_wait_success_now Let_def
        steady_device_def connected_world_def call_def)

section \<open>The calls a capture makes\<close>

lemma idle_wait_extends: "\<exists>ext. trace (snd (idle_wait dev timeout status s)) = trace s @ ext"
proof (induction dev timeout status s rule: idle_wait.induct)
  case (1 dev timeout status s)
  show ?case
  proof (cases "status \<noteq> 0 \<and> timeout < 10000")
    case True
    then obtain ext where
      "trace (snd (idle_wait dev (timeout + 100) (sdk_exp_status dev (trace s))
                    (call (ASIGetExpStatus (cam_camera_id s)) s)))
         = trace (call (ASIGetExpStatus (cam_camera_id s)) s) @ ext"
      using "1.IH" by blast
    then show ?thesis
      using True by (subst idle_wait.simps) simp
  next
    case False
    then show ?thesis by (subst idle_wait.simps) auto
  qed
qed

lemma exposure_wait_extends:
  "\<exists>ext. trace (snd (exposure_wait dev max_timeout timeout status s)) = trace s @ ext"
proof (induction dev max_timeout timeout status s rule: exposure_wait.induct)
  case (1 dev max_timeout timeout status s)
  show ?case
  proof (cases "timeout < max_timeout")
    case True
    show ?thesis
    proof (cases "sdk_exp_status dev (trace s) = 2")
      case True
      with \<open>timeout < max_timeout\<close> show ?thesis by (subst exposure_wait.simps) simp
    next
      case False
      then obtain ext where
        "trace (snd (exposure_wait dev max_timeout (timeout + 100) (sdk_exp_status dev (trace s))
                      (call (ASIGetExpStatus (cam_camera_id s)) s)))
           = trace (call (ASIGetExpStatus (cam_camera_id s)) s) @ ext"
        using "1.IH" \<open>timeout < max_timeout\<close> by blast
      with False \<open>timeout < max_timeout\<close> show ?thesis
        by (subst exposure_wait.simps) simp
    qed
  next
    case False
    then show ?thesis by (subst exposure_wait.simps) auto
  qed
qed

lemma wait_idle_fields [simp]:
  "cam_camera_id (wait_idle dev s) = cam_camera_id s"
  "cam_is_open (wait_idle dev s) = cam_is_open s"
  "cs_exposure (wait_idle dev s) = cs_exposure s"
  "cs_gain (wait_idle dev s) = cs_gain s"
  using only_trace_fields [OF wait_idle_only_trace [of s dev]] by simp_all

text \<open>On an open handle the capture applies the stored exposure right after the wait for idle.\<close>

lemma capture_snapshot_applies_exposure:
  assumes "cam_is_open s"
  shows "\<exists>rest. trace (snd (capture_snapshot dev s)) =
           trace (wait_idle dev s) @
           ASISetControlValue (cam_camera_id s) ASI_EXPOSURE (cs_exposure s) ASI_FALSE # rest"
proof -
  let ?s3 = "call (ASISetControlValue (cam_camera_id s) ASI_GAIN (cs_gain s) ASI_FALSE)
              (call (ASISetControlValue (cam_camera_id s) ASI_EXPOSURE (cs_exposure s) ASI_FALSE)
                (wait_idle dev s))"
  let ?s4 = "call (ASIStartExposure (cam_camera_id s) 0) ?s3"
  let ?m = "cs_exposure s div 1000 + 5000"
  show ?thesis
  proof (cases "sdk_result dev (trace ?s3) (ASIStartExposure (cam_camera_id s) 0) = 0")
    case False
    then show ?thesis using assms by (simp add: capture_snapshot_def Let_def)
  next
    case True
    obtain status s5 where w: "exposure_wait dev ?m 0 0 ?s4 = (status, s5)"
      by (cases "exposure_wait dev ?m 0 0 ?s4")
    obtain ext where e: "trace s5 = trace ?s4 @ ext"
      using exposure_wait_extends [of dev ?m 0 0 ?s4] w by auto
    show ?thesis
      using assms True w e by (simp add: capture_snapshot_def Let_def)
  qed
qed

section \<open>Updating the photo exposure\<close>

lemma update_settings_photo_only:
  "update_settings dev \<lparr>req_gain = None, req_photo_exposure = Some e, req_video_exposure = None\<rparr> s =
     (\<lparr>resp_success = True, resp_gain = cs_gain s, resp_exposure = e,
       resp_video_exposure = cs_video_exposure s\<rparr>, s\<lparr>cs_exposure := e\<rparr>)"
  by (simp add: update_settings_def Let_def)

lemma stop_stream_explicit_exposure:
  "filter explicit_exposure_call (trace (stop_stream s)) = filter explicit_exposure_call (trace s)"
  by (simp add: stop_stream_def Let_def)

lemma start_stream_explicit_exposure:
  "filter explicit_exposure_call (trace (snd (start_stream dev s))) = filter explicit_exposure_call (trace s)"
  by (simp add: start_stream_def Let_def)

lemma disconnect_explicit_exposure:
  "filter explicit_exposure_call (trace (disconnect s)) = filter explicit_exposure_call (trace s)"
  by (simp add: disconnect_def stop_stream_def Let_def)

lemma connect_explicit_exposure:
  "filter explicit_exposure_call (trace (snd (connect dev s))) = filter explicit_exposure_call (trace s)"
  by (simp add: connect_def Let_def split: prod.splits)

lemma loop_pass_explicit_exposure:
  "filter explicit_exposure_call (trace (snd (capture_loop_body dev l s))) = filter explicit_exposure_call (trace s)"
  by (simp add: capture_loop_body_trace)

lemma update_settings_explicit_exposure:
  "filter explicit_exposure_call (trace (snd (update_settings dev data s))) = filter explicit_exposure_call (trace s)"
  by (simp add: update_settings_def Let_def start_stream_explicit_exposure stop_stream_explicit_exposure
      split: option.splits)

lemma step_explicit_exposure:
  "a \<noteq> DoSnapshot \<Longrightarrow>
   filter explicit_exposure_call (trace (step dev a s)) = filter explicit_exposure_call (trace s)"
  by (cases a)
     (simp_all add: connect_explicit_exposure disconnect_explicit_exposure
        start_stream_explicit_exposure stop_stream_explicit_exposure
        update_settings_explicit_exposure loop_pass_explicit_exposure)

text \<open>
  C8. A settings update that carries only \<^verbatim>\<open>photo_exposure\<close> stores the value and does
  nothing else: no call to the SDK, no change of the streaming flags or of any other
  field. The stored value reaches the hardware in \<^verbatim>\<open>capture_snapshot\<close>, which sets it
  as an explicit exposure on an open handle; no other request and no pass of the
  video-pull loop sets an explicit exposure.
\<close>

theorem photo_exposure_update_is_lazy:
  "update_settings dev \<lparr>req_gain = None, req_photo_exposure = Some e, req_video_exposure = None\<rparr> s =
     (\<lparr>resp_success = True, resp_gain = cs_gain s, resp_exposure = e,
       resp_video_exposure = cs_video_exposure s\<rparr>, s\<lparr>cs_exposure := e\<rparr>)
   \<and> trace (s\<lparr>cs_exposure := e\<rparr>) = trace s
   \<and> (cam_is_open s \<longrightarrow>
        (\<exists>rest. trace (snd (capture_snapshot dev' (s\<lparr>cs_exposure := e\<rparr>))) =
           trace (wait_idle dev' (s\<lparr>cs_exposure := e\<rparr>)) @
           ASISetControlValue (cam_camera_id s) ASI_EXPOSURE e ASI_FALSE # rest))
   \<and> (a \<noteq> DoSnapshot \<longrightarrow>
        filter explicit_exposure_call (trace (step dev' a s')) =
        filter explicit_exposure_call (trace s'))"
  using update_settings_photo_only [of dev e s]
    capture_snapshot_applies_exposure [of "s\<lparr>cs_exposure := e\<rparr>" dev']
    step_explicit_exposure [of a dev' s']
  by simp

theorem photo_exposure_update_is_lazy_witness:
  "cam_is_open connected_world \<and> DoStartStream \<noteq> DoSnapshot
   \<and> snd (update_settings steady_device
        \<lparr>req_gain = None, req_photo_exposure = Some 2000000, req_video_exposure = None\<rparr>
        connected_world) = connected_world\<lparr>cs_exposure := 2000000\<rparr>
   \<and> (\<exists>rest. trace (snd (capture_snapshot steady_device (connected_world\<lparr>cs_exposure := 2000000\<rparr>))) =
           trace (wait_idle steady_device (connected_world\<lparr>cs_exposure := 2000000\<rparr>)) @
           ASISetControlValue 0 ASI_EXPOSURE 2000000 ASI_FALSE # rest)
   \<and> filter explicit_exposure_call (trace (step steady_device DoStartStream connected_world)) =
       filter explicit_exposure_call (trace connected_world)"
  using photo_exposure_update_is_lazy [of steady_device 2000000 connected_world steady_device
      DoStartStream connected_world]
  by (simp add: connected_world_def)

section \<open>A snapshot during streaming\<close>

lemma capture_snapshot_fields [simp]:
  "cam_camera_id (snd (capture_snapshot dev s)) = cam_camera_id s"
  "cam_is_open (snd (capture_snapshot dev s)) = cam_is_open s"
  "cam_streaming (snd (capture_snapshot dev s)) = cam_streaming s"
  "cs_video_exposure (snd (capture_snapshot dev s)) = cs_video_exposure s"
  using only_trace_fields [OF capture_snapshot_only_trace [of s dev]] by simp_all

lemma capture_snapshot_extends:
  "\<exists>ext. trace (snd (capture_snapshot dev s)) = trace s @ ext"
proof (cases "cam_is_open s")
  case False
  then show ?thesis by (simp add: capture_snapshot_def)
next
  case True
  obtain rest where r: "trace (snd (capture_snapshot dev s)) =
      trace (wait_idle dev s) @
      ASISetControlValue (cam_camera_id s) ASI_EXPOSURE (cs_exposure s) ASI_FALSE # rest"
    using capture_snapshot_applies_exposure [OF True] by blast
  let ?s1 = "call (ASIGetExpStatus (cam_camera_id s)) s"
  have "\<exists>ext. trace (wait_idle dev s) = trace s @ ext"
  proof (cases "sdk_exp_status dev (trace s) = 0")
    case True
    then show ?thesis by (simp add: wait_idle_def Let_def)
  next
    case False
    obtain st s2 where w: "idle_wait dev 0 (sdk_exp_status dev (trace s)) ?s1 = (st, s2)"
      by (cases "idle_wait dev 0 (sdk_exp_status dev (trace s)) ?s1")
    obtain ext where "trace s2 = trace ?s1 @ ext"
      using idle_wait_extends [of dev 0 "sdk_exp_status dev (trace s)" ?s1] w by auto
    then show ?thesis using False w by (simp add: wait_idle_def Let_def)
  qed
  then show ?thesis using r by auto
qed

lemma start_stream_open:
  "cam_is_open s \<Longrightarrow>
   trace (snd (start_stream dev s)) =
     trace s @ [ASISetControlValue (cam_camera_id s) ASI_AUTO_MAX_EXP (cs_video_exposure s) ASI_FALSE,
                ASISetControlValue (cam_camera_id s) ASI_EXPOSURE 0 ASI_TRUE,
                ASIStartVideoCapture (cam_camera_id s)]
   \<and> fst (start_stream dev s) =
       (sdk_result dev
          (trace s @ [ASISetControlValue (cam_camera_id s) ASI_AUTO_MAX_EXP (cs_video_exposure s) ASI_FALSE,
                      ASISetControlValue (cam_camera_id s) ASI_EXPOSURE 0 ASI_TRUE])
          (ASIStartVideoCapture (cam_camera_id s)) = ASI_SUCCESS)
   \<and> cam_streaming (snd (start_stream dev s)) = (fst (start_stream dev s) \<or> cam_streaming s)
   \<and> cs_streaming (snd (start_stream dev s)) = (fst (start_stream dev s) \<or> cs_streaming s)"
  by (simp add: start_stream_def Let_def)

text \<open>
  C4. When \<^verbatim>\<open>GET /camera/snapshot\<close> is served on a connected, open and streaming
  camera, the handler stops the stream, captures, and then starts the stream again: the
  last three calls to the SDK are those of \<^verbatim>\<open>start_stream\<close>, whether or not the capture
  returned an image. The answer is the JPEG exactly when the capture returned an image,
  whatever the restart returns, and the camera streams afterwards exactly when the SDK
  accepted the restart.
\<close>

theorem snapshot_while_streaming:
  "cs_connected s \<and> cam_is_open s \<and> cam_streaming s \<longrightarrow>
     snapshot dev s =
       ((case fst (capture_snapshot dev (stop_stream s)) of
           Some i \<Rightarrow> SnapshotJpeg i
         | None \<Rightarrow> SnapshotError ''Failed to capture snapshot - camera returned None''),
        snd (start_stream dev (snd (capture_snapshot dev (stop_stream s)))))
     \<and> (\<exists>ext. trace (snd (capture_snapshot dev (stop_stream s))) = trace (stop_stream s) @ ext)
     \<and> trace (snd (snapshot dev s)) =
         trace (snd (capture_snapshot dev (stop_stream s))) @
         [ASISetControlValue (cam_camera_id s) ASI_AUTO_MAX_EXP (cs_video_exposure s) ASI_FALSE,
          ASISetControlValue (cam_camera_id s) ASI_EXPOSURE 0 ASI_TRUE,
          ASIStartVideoCapture (cam_camera_id s)]
     \<and> cam_streaming (snd (snapshot dev s)) =
         (sdk_result dev
            (trace (snd (capture_snapshot dev (stop_stream s))) @
             [ASISetControlValue (cam_camera_id s) ASI_AUTO_MAX_EXP (cs_video_exposure s) ASI_FALSE,
              ASISetControlValue (cam_camera_id s) ASI_EXPOSURE 0 ASI_TRUE])
            (ASIStartVideoCapture (cam_camera_id s)) = ASI_SUCCESS)"
proof
  assume a: "cs_connected s \<and> cam_is_open s \<and> cam_streaming s"
  let ?c = "capture_snapshot dev (stop_stream s)"
  have eq: "snapshot dev s =
       ((case fst ?c of
           Some i \<Rightarrow> SnapshotJpeg i
         | None \<Rightarrow> SnapshotError ''Failed to capture snapshot - camera returned None''),
        snd (start_stream dev (snd ?c)))"
    using a by (cases ?c) (simp add: snapshot_def Let_def split: option.splits)
  have op: "cam_is_open (snd ?c)" using a by simp
  have st: "\<not> cam_streaming (snd ?c)" by simp
  have s2: "snd (snapshot dev s) = snd (start_stream dev (snd ?c))"
    using eq by simp
  show "snapshot dev s =
       ((case fst ?c of
           Some i \<Rightarrow> SnapshotJpeg i
         | None \<Rightarrow> SnapshotError ''Failed to capture snapshot - camera returned None''),
        snd (start_stream dev (snd ?c)))
     \<and> (\<exists>ext. trace (snd ?c) = trace (stop_stream s) @ ext)
     \<and> trace (snd (snapshot dev s)) =
         trace (snd ?c) @
         [ASISetControlValue (cam_camera_id s) ASI_AUTO_MAX_EXP (cs_video_exposure s) ASI_FALSE,
          ASISetControlValue (cam_camera_id s) ASI_EXPOSURE 0 ASI_TRUE,
          ASIStartVideoCapture (cam_camera_id s)]
     \<and> cam_streaming (snd (snapshot dev s)) =
         (sdk_result dev
            (trace (snd ?c) @
             [ASISetControlValue (cam_camera_id s) ASI_AUTO_MAX_EXP (cs_video_exposure s) ASI_FALSE,
              ASISetControlValue (cam_camera_id s) ASI_EXPOSURE 0 ASI_TRUE])
            (ASIStartVideoCapture (cam_camera_id s)) = ASI_SUCCESS)"
    using eq capture_snapshot_extends [of dev "stop_stream s"] start_stream_open [OF op, of dev] st
    unfolding s2 by simp
qed

theorem snapshot_while_streaming_witness:
  "cs_connected streaming_world \<and> cam_is_open streaming_world \<and> cam_streaming streaming_world
   \<and> fst (snapshot (refusing (ASIStartVideoCapture 0) 16) streaming_world)
       = SnapshotJpeg (Image 2 1 [10, 20, 30, 40, 50, 60])
   \<and> \<not> cam_streaming (snd (snapshot (refusing (ASIStartVideoCapture 0) 16) streaming_world))
   \<and> fst (snapshot (refusing (ASIStartExposure 0 0) 16) streaming_world)
       = SnapshotError ''Failed to capture snapshot - camera returned None''
   \<and> cam_streaming (snd (snapshot (refusing (ASIStartExposure 0 0) 16) streaming_world))
   \<and> trace (snd (snapshot (refusing (ASIStartExposure 0 0) 16) streaming_world))
       = trace streaming_world @
         [ASIStopVideoCapture 0, ASIGetExpStatus 0, ASISetControlValue 0 1 1000000 0,
          ASISetControlValue 0 0 50 0, ASIStartExposure 0 0,
          ASISetControlValue 0 11 100000 0, ASISetControlValue 0 1 0 1, ASIStartVideoCapture 0]"
  using snapshot_while_streaming [of streaming_world "refusing (ASIStartVideoCapture 0) 16"]
    snapshot_while_streaming [of streaming_world "refusing (ASIStartExposure 0 0) 16"]
  by (simp add: snapshot_def capture_snapshot_def wait_idle_def exposure_wait_success_now
      stop_stream_def start_stream_def refusing_def steady_device_def streaming_world_def
      connected_world_def call_def Let_def)


section \<open>Polling the exposure status\<close>

lemma polls_allowed_step:
  "timeout < max_timeout \<Longrightarrow>
   polls_allowed (max_timeout - timeout) = Suc (polls_allowed (max_timeout - (timeout + 100)))"
  unfolding polls_allowed_def by (simp flip: Suc_nat_eq_nat_zadd1)

lemma polls_allowed_done: "\<not> timeout < max_timeout \<Longrightarrow> polls_allowed (max_timeout - timeout) = 0"
  unfolding polls_allowed_def by simp

text \<open>
  When no poll below the deadline reads Success, the loop makes every poll the deadline
  allows and ends with a status other than Success.
\<close>

lemma exposure_wait_no_success:
  "(\<forall>k. timeout + 100 * int k < max_timeout \<longrightarrow>
        sdk_exp_status dev (trace s @ replicate k (ASIGetExpStatus (cam_camera_id s))) \<noteq> 2) \<Longrightarrow>
   status \<noteq> 2 \<Longrightarrow>
   fst (exposure_wait dev max_timeout timeout status s) \<noteq> 2
   \<and> snd (exposure_wait dev max_timeout timeout status s) =
       s\<lparr>trace := trace s @ replicate (polls_allowed (max_timeout - timeout))
                              (ASIGetExpStatus (cam_camera_id s))\<rparr>"
proof (induction dev max_timeout timeout status s rule: exposure_wait.induct)
  case (1 dev max_timeout timeout status s)
  let ?P = "ASIGetExpStatus (cam_camera_id s)"
  show ?case
  proof (cases "timeout < max_timeout")
    case False
    then show ?thesis
      using "1.prems"(2) by (subst (1 2) exposure_wait.simps) (simp add: polls_allowed_done)
  next
    case True
    have now: "sdk_exp_status dev (trace s) \<noteq> 2"
      using "1.prems"(1) [rule_format, of 0] True by simp
    have later: "\<forall>k. timeout + 100 + 100 * int k < max_timeout \<longrightarrow>
        sdk_exp_status dev (trace (call ?P s) @ replicate k (ASIGetExpStatus (cam_camera_id (call ?P s)))) \<noteq> 2"
    proof (intro allI impI)
      fix k
      assume "timeout + 100 + 100 * int k < max_timeout"
      then have "timeout + 100 * int (Suc k) < max_timeout" by simp
      then have "sdk_exp_status dev (trace s @ replicate (Suc k) ?P) \<noteq> 2"
        using "1.prems"(1) by blast
      then show "sdk_exp_status dev (trace (call ?P s) @ replicate k (ASIGetExpStatus (cam_camera_id (call ?P s)))) \<noteq> 2"
        by simp
    qed
    have ih: "fst (exposure_wait dev max_timeout (timeout + 100) (sdk_exp_status dev (trace s)) (call ?P s)) \<noteq> 2
      \<and> snd (exposure_wait dev max_timeout (timeout + 100) (sdk_exp_status dev (trace s)) (call ?P s)) =
          (call ?P s)\<lparr>trace := trace (call ?P s) @
             replicate (polls_allowed (max_timeout - (timeout + 100)))
               (ASIGetExpStatus (cam_camera_id (call ?P s)))\<rparr>"
      using "1.IH" [OF True now later now] .
    have unfold: "exposure_wait dev max_timeout timeout status s =
        exposure_wait dev max_timeout (timeout + 100) (sdk_exp_status dev (trace s)) (call ?P s)"
      using True now by (subst exposure_wait.simps) simp
    show ?thesis
      unfolding unfold using ih polls_allowed_step [OF True]
      by (simp add: call_def)
  qed
qed

text \<open>When poll number \<open>k\<close> is the first to read Success, the loop ends right after it.\<close>

lemma exposure_wait_first_success:
  "timeout + 100 * int k < max_timeout \<Longrightarrow>
   sdk_exp_status dev (trace s @ replicate k (ASIGetExpStatus (cam_camera_id s))) = 2 \<Longrightarrow>
   (\<forall>j<k. sdk_exp_status dev (trace s @ replicate j (ASIGetExpStatus (cam_camera_id s))) \<noteq> 2) \<Longrightarrow>
   exposure_wait dev max_timeout timeout status s =
     (2, s\<lparr>trace := trace s @ replicate (Suc k) (ASIGetExpStatus (cam_camera_id s))\<rparr>)"
proof (induction k arbitrary: timeout status s)
  case 0
  then show ?case
    using exposure_wait_success_now [of timeout max_timeout dev s status]
    by (simp add: call_def)
next
  case (Suc k)
  let ?P = "ASIGetExpStatus (cam_camera_id s)"
  have lt: "timeout < max_timeout" using Suc.prems(1) by simp
  have now: "sdk_exp_status dev (trace s) \<noteq> 2"
    using Suc.prems(3) [rule_format, of 0] by simp
  have a: "timeout + 100 + 100 * int k < max_timeout" using Suc.prems(1) by simp
  have b: "sdk_exp_status dev (trace (call ?P s) @ replicate k (ASIGetExpStatus (cam_camera_id (call ?P s)))) = 2"
    using Suc.prems(2) by simp
  have c: "\<forall>j<k. sdk_exp_status dev (trace (call ?P s) @ replicate j (ASIGetExpStatus (cam_camera_id (call ?P s)))) \<noteq> 2"
  proof (intro allI impI)
    fix j assume "j < k"
    then have "Suc j < Suc k" by simp
    then have "sdk_exp_status dev (trace s @ replicate (Suc j) ?P) \<noteq> 2"
      using Suc.prems(3) by blast
    then show "sdk_exp_status dev (trace (call ?P s) @ replicate j (ASIGetExpStatus (cam_camera_id (call ?P s)))) \<noteq> 2"
      by simp
  qed
  have unfold: "exposure_wait dev max_timeout timeout status s =
      exposure_wait dev max_timeout (timeout + 100) (sdk_exp_status dev (trace s)) (call ?P s)"
    using lt now by (subst exposure_wait.simps) simp
  show ?case
    unfolding unfold using Suc.IH [OF a b c, of "sdk_exp_status dev (trace s)"]
    by (simp add: call_def)
qed

section \<open>The outcome of the exposure in a capture\<close>

lemma exposure_started_fields [simp]:
  "cam_camera_id (exposure_started dev s) = cam_camera_id s"
  "cs_width (exposure_started dev s) = cs_width s"
  "cs_height (exposure_started dev s) = cs_height s"
  using only_trace_fields [OF wait_idle_only_trace [of s dev]]
  by (simp_all add: exposure_started_def before_exposure_def)

lemma capture_snapshot_started:
  "cam_is_open s \<Longrightarrow>
   sdk_result dev (trace (before_exposure dev s)) (ASIStartExposure (cam_camera_id s) 0) = ASI_SUCCESS \<Longrightarrow>
   capture_snapshot dev s =
     (case exposure_wait dev (cs_exposure s div 1000 + 5000) 0 0 (exposure_started dev s) of
        (status, s5) \<Rightarrow>
          if status \<noteq> 2 then (None, s5)
          else
            if sdk_result dev (trace s5)
                 (ASIGetDataAfterExp (cam_camera_id s5) (cs_width s5 * cs_height s5 * 3)) \<noteq> ASI_SUCCESS
            then (None, call (ASIGetDataAfterExp (cam_camera_id s5) (cs_width s5 * cs_height s5 * 3)) s5)
            else (Some (Image (cs_width s5) (cs_height s5) (sdk_buffer dev (trace s5))),
                  call (ASIGetDataAfterExp (cam_camera_id s5) (cs_width s5 * cs_height s5 * 3)) s5))"
  by (simp add: capture_snapshot_def exposure_started_def before_exposure_def Let_def
      split: prod.splits)

lemma capture_snapshot_no_success:
  assumes "cam_is_open s"
    and "sdk_result dev (trace (before_exposure dev s)) (ASIStartExposure (cam_camera_id s) 0) = ASI_SUCCESS"
    and "\<forall>k. 100 * int k < cs_exposure s div 1000 + 5000 \<longrightarrow> poll_status dev s k \<noteq> 2"
  shows "capture_snapshot dev s =
     (None, (exposure_started dev s)\<lparr>trace := trace (exposure_started dev s) @
        replicate (polls_allowed (cs_exposure s div 1000 + 5000)) (ASIGetExpStatus (cam_camera_id s))\<rparr>)"
proof -
  let ?s4 = "exposure_started dev s"
  let ?m = "cs_exposure s div 1000 + 5000"
  have h: "\<forall>k. 0 + 100 * int k < ?m \<longrightarrow>
      sdk_exp_status dev (trace ?s4 @ replicate k (ASIGetExpStatus (cam_camera_id ?s4))) \<noteq> 2"
    using assms(3) by (simp add: poll_status_def)
  have w: "fst (exposure_wait dev ?m 0 0 ?s4) \<noteq> 2
     \<and> snd (exposure_wait dev ?m 0 0 ?s4) =
         ?s4\<lparr>trace := trace ?s4 @ replicate (polls_allowed (?m - 0)) (ASIGetExpStatus (cam_camera_id ?s4))\<rparr>"
    by (rule exposure_wait_no_success [OF h]) simp
  obtain status s5 where e: "exposure_wait dev ?m 0 0 ?s4 = (status, s5)"
    by (cases "exposure_wait dev ?m 0 0 ?s4")
  show ?thesis
    using w e capture_snapshot_started [OF assms(1,2)] by simp
qed

lemma capture_snapshot_first_success:
  assumes "cam_is_open s"
    and "sdk_result dev (trace (before_exposure dev s)) (ASIStartExposure (cam_camera_id s) 0) = ASI_SUCCESS"
    and "100 * int k < cs_exposure s div 1000 + 5000"
    and "poll_status dev s k = 2"
    and "\<forall>j<k. poll_status dev s j \<noteq> 2"
  shows "trace (snd (capture_snapshot dev s)) =
           trace (exposure_started dev s) @ replicate (Suc k) (ASIGetExpStatus (cam_camera_id s)) @
           [ASIGetDataAfterExp (cam_camera_id s) (cs_width s * cs_height s * 3)]
     \<and> fst (capture_snapshot dev s) =
         (if sdk_result dev
               (trace (exposure_started dev s) @ replicate (Suc k) (ASIGetExpStatus (cam_camera_id s)))
               (ASIGetDataAfterExp (cam_camera_id s) (cs_width s * cs_height s * 3)) = ASI_SUCCESS
          then Some (Image (cs_width s) (cs_height s)
                 (sdk_buffer dev
                    (trace (exposure_started dev s) @ replicate (Suc k) (ASIGetExpStatus (cam_camera_id s)))))
          else None)"
proof -
  let ?s4 = "exposure_started dev s"
  let ?m = "cs_exposure s div 1000 + 5000"
  have a: "0 + 100 * int k < ?m" using assms(3) by simp
  have b: "sdk_exp_status dev (trace ?s4 @ replicate k (ASIGetExpStatus (cam_camera_id ?s4))) = 2"
    using assms(4) by (simp add: poll_status_def)
  have c: "\<forall>j<k. sdk_exp_status dev (trace ?s4 @ replicate j (ASIGetExpStatus (cam_camera_id ?s4))) \<noteq> 2"
    using assms(5) by (simp add: poll_status_def)
  have w: "exposure_wait dev ?m 0 0 ?s4 =
      (2, ?s4\<lparr>trace := trace ?s4 @ replicate (Suc k) (ASIGetExpStatus (cam_camera_id ?s4))\<rparr>)"
    by (rule exposure_wait_first_success [OF a b c])
  show ?thesis
    using w capture_snapshot_started [OF assms(1,2)] by simp
qed

text \<open>The example device that reports every started exposure as failed, evaluated.\<close>

lemma failing_exposure_started:
  "cam_is_open connected_world
   \<and> sdk_result failing_exposure (trace (before_exposure failing_exposure connected_world))
        (ASIStartExposure (cam_camera_id connected_world) 0) = ASI_SUCCESS
   \<and> trace (exposure_started failing_exposure connected_world) =
       trace connected_world @
       [ASIGetExpStatus 0, ASISetControlValue 0 1 1000000 0, ASISetControlValue 0 0 50 0,
        ASIStartExposure 0 0]
   \<and> cam_camera_id connected_world = 0
   \<and> cs_exposure connected_world = 1000000"
  by (simp add: exposure_started_def before_exposure_def wait_idle_def failing_exposure_def
      steady_device_def connected_world_def call_def Let_def)

lemma failing_exposure_polls: "poll_status failing_exposure connected_world k = 3"
  using failing_exposure_started
  by (simp add: poll_status_def) (simp add: failing_exposure_def)

text \<open>
  With a device that reports Failed at every poll, and the default exposure of one
  second, the capture reads the status 60 times before it gives up: the first Failed
  does not end the polling.
\<close>

theorem exposure_polling_stops_on_failed_counterexample:
  "poll_status failing_exposure connected_world 0 = 3
   \<and> fst (capture_snapshot failing_exposure connected_world) = None
   \<and> trace (snd (capture_snapshot failing_exposure connected_world)) =
       trace (exposure_started failing_exposure connected_world) @ replicate 60 (ASIGetExpStatus 0)
   \<and> trace (snd (capture_snapshot failing_exposure connected_world)) \<noteq>
       trace (exposure_started failing_exposure connected_world) @ [ASIGetExpStatus 0]"
proof -
  have o: "cam_is_open connected_world"
    and st: "sdk_result failing_exposure (trace (before_exposure failing_exposure connected_world))
        (ASIStartExposure (cam_camera_id connected_world) 0) = ASI_SUCCESS"
    and cid: "cam_camera_id connected_world = 0"
    and ex: "cs_exposure connected_world = 1000000"
    using failing_exposure_started by blast+
  have np: "\<forall>k. 100 * int k < cs_exposure connected_world div 1000 + 5000 \<longrightarrow>
      poll_status failing_exposure connected_world k \<noteq> 2"
    by (simp add: failing_exposure_polls)
  have n: "polls_allowed (cs_exposure connected_world div 1000 + 5000) = 60"
    by (simp add: ex polls_allowed_def)
  have r: "capture_snapshot failing_exposure connected_world =
     (None, (exposure_started failing_exposure connected_world)\<lparr>trace :=
        trace (exposure_started failing_exposure connected_world) @
        replicate 60 (ASIGetExpStatus 0)\<rparr>)"
    using capture_snapshot_no_success [OF o st np] by (simp add: n cid)
  have "replicate 60 (ASIGetExpStatus 0) \<noteq> [ASIGetExpStatus 0]"
  proof
    assume "replicate 60 (ASIGetExpStatus 0) = [ASIGetExpStatus 0]"
    then have "length (replicate 60 (ASIGetExpStatus 0)) = length [ASIGetExpStatus 0]"
      by (rule arg_cong)
    then show False by simp
  qed
  then show ?thesis
    using r by (simp add: failing_exposure_polls)
qed

text \<open>
  C3, as the code has it. The claim: the polling of the exposure status ends as soon as
  the status is Success or Failed, or at the deadline. In the source the loop leaves
  only on Success (status 2) or when the counter, raised by 100 at each poll, reaches
  \<open>exposure div 1000 + 5000\<close>; a Failed status does not end it. After a start of the
  exposure that the SDK accepted: when no poll below the deadline reads Success, the
  capture makes every poll the deadline allows and returns \<^verbatim>\<open>None\<close>; when poll \<open>k\<close> is the
  first to read Success, the polling stops after it and the frame is fetched.
\<close>

theorem exposure_polling_outcome:
  "cam_is_open s
   \<and> sdk_result dev (trace (before_exposure dev s)) (ASIStartExposure (cam_camera_id s) 0) = ASI_SUCCESS
   \<longrightarrow>
     ((\<forall>k. 100 * int k < cs_exposure s div 1000 + 5000 \<longrightarrow> poll_status dev s k \<noteq> 2) \<longrightarrow>
        capture_snapshot dev s =
          (None, (exposure_started dev s)\<lparr>trace := trace (exposure_started dev s) @
             replicate (polls_allowed (cs_exposure s div 1000 + 5000))
               (ASIGetExpStatus (cam_camera_id s))\<rparr>))
     \<and> (100 * int k < cs_exposure s div 1000 + 5000 \<and> poll_status dev s k = 2
          \<and> (\<forall>j<k. poll_status dev s j \<noteq> 2) \<longrightarrow>
        trace (snd (capture_snapshot dev s)) =
          trace (exposure_started dev s) @ replicate (Suc k) (ASIGetExpStatus (cam_camera_id s)) @
          [ASIGetDataAfterExp (cam_camera_id s) (cs_width s * cs_height s * 3)]
        \<and> fst (capture_snapshot dev s) =
            (if sdk_result dev
                  (trace (exposure_started dev s) @ replicate (Suc k) (ASIGetExpStatus (cam_camera_id s)))
                  (ASIGetDataAfterExp (cam_camera_id s) (cs_width s * cs_height s * 3)) = ASI_SUCCESS
             then Some (Image (cs_width s) (cs_height s)
                    (sdk_buffer dev
                       (trace (exposure_started dev s) @
                        replicate (Suc k) (ASIGetExpStatus (cam_camera_id s)))))
             else None))"
  using capture_snapshot_no_success [of s dev] capture_snapshot_first_success [of s dev k]
  by blast

lemma steady_exposure_started:
  "sdk_result steady_device (trace (before_exposure steady_device connected_world))
        (ASIStartExposure (cam_camera_id connected_world) 0) = ASI_SUCCESS
   \<and> poll_status steady_device connected_world 0 = 2"
  by (simp add: poll_status_def exposure_started_def before_exposure_def wait_idle_def
      steady_device_def connected_world_def call_def Let_def)

theorem exposure_polling_outcome_witness:
  "cam_is_open connected_world
   \<and> sdk_result failing_exposure (trace (before_exposure failing_exposure connected_world))
        (ASIStartExposure (cam_camera_id connected_world) 0) = ASI_SUCCESS
   \<and> (\<forall>k. poll_status failing_exposure connected_world k = 3)
   \<and> fst (capture_snapshot failing_exposure connected_world) = None
   \<and> length (trace (snd (capture_snapshot failing_exposure connected_world))) =
       length (trace (exposure_started failing_exposure connected_world)) + 60
   \<and> sdk_result steady_device (trace (before_exposure steady_device connected_world))
        (ASIStartExposure (cam_camera_id connected_world) 0) = ASI_SUCCESS
   \<and> 100 * int 0 < cs_exposure connected_world div 1000 + 5000
   \<and> poll_status steady_device connected_world 0 = 2
   \<and> fst (capture_snapshot steady_device connected_world) = Some (Image 2 1 [10, 20, 30, 40, 50, 60])"
proof -
  have o: "cam_is_open connected_world"
    and st: "sdk_result failing_exposure (trace (before_exposure failing_exposure connected_world))
        (ASIStartExposure (cam_camera_id connected_world) 0) = ASI_SUCCESS"
    and ex: "cs_exposure connected_world = 1000000"
    using failing_exposure_started by blast+
  have np: "\<forall>k. 100 * int k < cs_exposure connected_world div 1000 + 5000 \<longrightarrow>
      poll_status failing_exposure connected_world k \<noteq> 2"
    by (simp add: failing_exposure_polls)
  have n: "polls_allowed (cs_exposure connected_world div 1000 + 5000) = 60"
    by (simp add: ex polls_allowed_def)
  have a: "capture_snapshot failing_exposure connected_world =
     (None, (exposure_started failing_exposure connected_world)\<lparr>trace :=
        trace (exposure_started failing_exposure connected_world) @
        replicate 60 (ASIGetExpStatus (cam_camera_id connected_world))\<rparr>)"
    using exposure_polling_outcome [of connected_world failing_exposure 0] o st np
    unfolding n by blast
  have st2: "sdk_result steady_device (trace (before_exposure steady_device connected_world))
        (ASIStartExposure (cam_camera_id connected_world) 0) = ASI_SUCCESS"
    and p0: "poll_status steady_device connected_world 0 = 2"
    using steady_exposure_started by blast+
  have lt: "100 * int 0 < cs_exposure connected_world div 1000 + 5000"
    by (simp add: ex)
  show ?thesis
    using o st a st2 lt p0 by (simp add: capture_steady failing_exposure_polls)
qed

section \<open>The current frame over the life of the service\<close>

lemma connect_current_frame:
  "cs_current_frame (snd (connect dev s)) = cs_current_frame s"
  by (simp add: connect_def Let_def split: prod.splits)

lemma disconnect_current_frame:
  "cs_current_frame (disconnect s) = cs_current_frame s"
  by (simp add: disconnect_def Let_def)

lemma update_settings_current_frame:
  "cs_current_frame (snd (update_settings dev data s)) = cs_current_frame s"
  by (simp add: update_settings_def Let_def split: option.splits)

lemma capture_loop_body_current_frame:
  "cs_current_frame (snd (capture_loop_body dev l s)) =
     (if sdk_result dev (trace s)
           (ASIGetVideoData (cam_camera_id s) (ll_buffer_size l) (timeout_ms (cs_video_exposure s)))
         = ASI_SUCCESS
      then Some (Image (ll_width l) (ll_height l) (sdk_buffer dev (trace s)))
      else cs_current_frame s)"
  by (simp add: capture_loop_body_def Let_def)

text \<open>
  No request clears the current frame, and only a pass of the loop whose read succeeds
  sets it.
\<close>

lemma step_current_frame:
  "(cs_current_frame (step dev a s) = None) =
     (cs_current_frame s = None \<and> \<not> stores_frame dev a s)"
proof (cases a)
  case DoSnapshot
  then show ?thesis using snapshot_only_frames [of dev s] by simp
next
  case (DoLoopPass l)
  then show ?thesis by (simp add: capture_loop_body_current_frame)
qed (simp_all add: connect_current_frame disconnect_current_frame update_settings_current_frame)

lemma run_current_frame:
  "(cs_current_frame (run dev as s) = None) =
     (cs_current_frame s = None \<and> \<not> frame_ever_stored dev as s)"
proof (induction as arbitrary: s)
  case Nil
  then show ?case by simp
next
  case (Cons a as)
  show ?case
    using Cons.IH [of "step dev a s"] step_current_frame [of dev a s] by auto
qed

text \<open>
  C10. Whatever requests and passes of the video-pull loop have happened since the
  service started, \<^verbatim>\<open>GET /status\<close> reports \<^verbatim>\<open>lastSnapshot\<close> as null for both cameras
  exactly when no frame has ever been stored in the current-frame buffer; otherwise
  each entry carries the reading of the clock taken while the status is served, with no
  regard to when the frame was captured.
\<close>

theorem status_last_snapshot:
  "lastSnapshot (weatherCam (get_status now1 now2 (run dev as initial_world))) =
     (if frame_ever_stored dev as initial_world then Some now1 else None)
   \<and> lastSnapshot (meteorCam (get_status now1 now2 (run dev as initial_world))) =
     (if frame_ever_stored dev as initial_world then Some now2 else None)"
proof -
  have "cs_current_frame initial_world = None"
    by (simp add: initial_world_def)
  then have "(cs_current_frame (run dev as initial_world) = None) =
      (\<not> frame_ever_stored dev as initial_world)"
    using run_current_frame [of dev as initial_world] by simp
  then show ?thesis
    by (simp add: get_status_def)
qed

theorem status_last_snapshot_witness:
  "frame_ever_stored steady_device
     [DoConnect, DoStartStream, DoLoopPass (loop_entry connected_world)] initial_world
   \<and> lastSnapshot (weatherCam (get_status ''2026-01-01T00:00:00'' ''2026-01-01T00:00:01''
        (run steady_device [DoConnect, DoStartStream, DoLoopPass (loop_entry connected_world)]
           initial_world))) = Some ''2026-01-01T00:00:00''
   \<and> \<not> frame_ever_stored steady_device [DoConnect, DoSnapshot] initial_world
   \<and> lastSnapshot (meteorCam (get_status ''2026-01-01T00:00:00'' ''2026-01-01T00:00:01''
        (run steady_device [DoConnect, DoSnapshot] initial_world))) = None"
proof -
  have a: "frame_ever_stored steady_device
     [DoConnect, DoStartStream, DoLoopPass (loop_entry connected_world)] initial_world"
    by (simp add: connect_reaches_connected_world start_stream_reaches_streaming_world)
       (simp add: loop_guard_def streaming_world_def connected_world_def steady_device_def)
  have b: "\<not> frame_ever_stored steady_device [DoConnect, DoSnapshot] initial_world"
    by simp
  show ?thesis
    using a b
      status_last_snapshot [of "''2026-01-01T00:00:00''" "''2026-01-01T00:00:01''" steady_device
        "[DoConnect, DoStartStream, DoLoopPass (loop_entry connected_world)]"]
      status_last_snapshot [of "''2026-01-01T00:00:00''" "''2026-01-01T00:00:01''" steady_device
        "[DoConnect, DoSnapshot]"]
    by simp
qed

section \<open>The round trip of the gain\<close>

lemma update_settings_empty:
  "update_settings dev \<lparr>req_gain = None, req_photo_exposure = None, req_video_exposure = None\<rparr> s =
     (\<lparr>resp_success = True, resp_gain = cs_gain s, resp_exposure = cs_exposure s,
       resp_video_exposure = cs_video_exposure s\<rparr>, s)"
  by (simp add: update_settings_def Let_def)

lemma update_settings_gain_applied:
  "cam_is_open s \<Longrightarrow>
   ASISetControlValue (cam_camera_id s) ASI_GAIN g ASI_FALSE
     \<in> set (trace (snd (update_settings dev
           \<lparr>req_gain = Some g, req_photo_exposure = None, req_video_exposure = None\<rparr> s)))"
  by (simp add: update_settings_def stop_stream_def start_stream_def Let_def)

lemma update_settings_gain_idle:
  "cam_is_open s \<Longrightarrow> \<not> cs_streaming s \<Longrightarrow>
   snd (update_settings dev \<lparr>req_gain = Some g, req_photo_exposure = None, req_video_exposure = None\<rparr> s) =
     s\<lparr>cs_gain := g,
       trace := trace s @ [ASISetControlValue (cam_camera_id s) ASI_GAIN g ASI_FALSE,
                           ASIGetControlValue (cam_camera_id s) ASI_GAIN]\<rparr>"
  by (simp add: update_settings_def call_def Let_def)

lemma update_settings_gain_closed:
  "\<not> cam_is_open s \<Longrightarrow>
   snd (update_settings dev \<lparr>req_gain = Some g, req_photo_exposure = None, req_video_exposure = None\<rparr> s) =
     s\<lparr>cs_gain := g\<rparr>"
  by (simp add: update_settings_def Let_def)

text \<open>
  C7. A \<^verbatim>\<open>POST /camera/settings\<close> whose body is \<open>{gain: g}\<close> stores \<open>g\<close> as the gain,
  leaves the stored photo and video exposure alone, and answers with the stored values,
  so with the gain \<open>g\<close>; on an open handle it sets the gain \<open>g\<close> on the camera as an
  explicit value (and makes exactly that call and its read-back when the camera is not
  streaming), on a closed handle it only stores it. Reading the settings back afterwards
  (a post with an empty body, which changes nothing) reports the gain \<open>g\<close>. Posting the
  same body again gives the same answer and leaves the stored gain, photo exposure and
  video exposure as the first post left them, whatever the device does in between.
\<close>

theorem update_settings_gain_roundtrip:
  "resp_gain (fst (update_settings dev \<lparr>req_gain = Some g, req_photo_exposure = None, req_video_exposure = None\<rparr> s)) = g
   \<and> fst (update_settings dev' \<lparr>req_gain = Some g, req_photo_exposure = None, req_video_exposure = None\<rparr>
            (snd (update_settings dev \<lparr>req_gain = Some g, req_photo_exposure = None, req_video_exposure = None\<rparr> s)))
       = fst (update_settings dev \<lparr>req_gain = Some g, req_photo_exposure = None, req_video_exposure = None\<rparr> s)
   \<and> cs_gain (snd (update_settings dev' \<lparr>req_gain = Some g, req_photo_exposure = None, req_video_exposure = None\<rparr>
            (snd (update_settings dev \<lparr>req_gain = Some g, req_photo_exposure = None, req_video_exposure = None\<rparr> s))))
       = cs_gain (snd (update_settings dev \<lparr>req_gain = Some g, req_photo_exposure = None, req_video_exposure = None\<rparr> s))
   \<and> cs_exposure (snd (update_settings dev' \<lparr>req_gain = Some g, req_photo_exposure = None, req_video_exposure = None\<rparr>
            (snd (update_settings dev \<lparr>req_gain = Some g, req_photo_exposure = None, req_video_exposure = None\<rparr> s))))
       = cs_exposure (snd (update_settings dev \<lparr>req_gain = Some g, req_photo_exposure = None, req_video_exposure = None\<rparr> s))
   \<and> cs_video_exposure (snd (update_settings dev' \<lparr>req_gain = Some g, req_photo_exposure = None, req_video_exposure = None\<rparr>
            (snd (update_settings dev \<lparr>req_gain = Some g, req_photo_exposure = None, req_video_exposure = None\<rparr> s))))
       = cs_video_exposure (snd (update_settings dev \<lparr>req_gain = Some g, req_photo_exposure = None, req_video_exposure = None\<rparr> s))
   \<and> cs_gain (snd (update_settings dev \<lparr>req_gain = Some g, req_photo_exposure = None, req_video_exposure = None\<rparr> s)) = g
   \<and> cs_exposure (snd (update_settings dev \<lparr>req_gain = Some g, req_photo_exposure = None, req_video_exposure = None\<rparr> s))
       = cs_exposure s
   \<and> cs_video_exposure (snd (update_settings dev \<lparr>req_gain = Some g, req_photo_exposure = None, req_video_exposure = None\<rparr> s))
       = cs_video_exposure s
   \<and> fst (update_settings dev \<lparr>req_gain = Some g, req_photo_exposure = None, req_video_exposure = None\<rparr> s)
       = \<lparr>resp_success = True,
          resp_gain = cs_gain (snd (update_settings dev \<lparr>req_gain = Some g, req_photo_exposure = None, req_video_exposure = None\<rparr> s)),
          resp_exposure = cs_exposure (snd (update_settings dev \<lparr>req_gain = Some g, req_photo_exposure = None, req_video_exposure = None\<rparr> s)),
          resp_video_exposure = cs_video_exposure (snd (update_settings dev \<lparr>req_gain = Some g, req_photo_exposure = None, req_video_exposure = None\<rparr> s))\<rparr>
   \<and> update_settings dev' \<lparr>req_gain = None, req_photo_exposure = None, req_video_exposure = None\<rparr>
         (snd (update_settings dev \<lparr>req_gain = Some g, req_photo_exposure = None, req_video_exposure = None\<rparr> s))
       = (\<lparr>resp_success = True, resp_gain = g, resp_exposure = cs_exposure s,
           resp_video_exposure = cs_video_exposure s\<rparr>,
          snd (update_settings dev \<lparr>req_gain = Some g, req_photo_exposure = None, req_video_exposure = None\<rparr> s))
   \<and> (cam_is_open s \<longrightarrow>
        ASISetControlValue (cam_camera_id s) ASI_GAIN g ASI_FALSE
          \<in> set (trace (snd (update_settings dev
                \<lparr>req_gain = Some g, req_photo_exposure = None, req_video_exposure = None\<rparr> s))))
   \<and> (cam_is_open s \<and> \<not> cs_streaming s \<longrightarrow>
        snd (update_settings dev \<lparr>req_gain = Some g, req_photo_exposure = None, req_video_exposure = None\<rparr> s) =
          s\<lparr>cs_gain := g,
            trace := trace s @ [ASISetControlValue (cam_camera_id s) ASI_GAIN g ASI_FALSE,
                                ASIGetControlValue (cam_camera_id s) ASI_GAIN]\<rparr>)
   \<and> (\<not> cam_is_open s \<longrightarrow>
        snd (update_settings dev \<lparr>req_gain = Some g, req_photo_exposure = None, req_video_exposure = None\<rparr> s) =
          s\<lparr>cs_gain := g\<rparr>)"
  using update_settings_gain_applied [of s g dev] update_settings_gain_idle [of s dev g]
    update_settings_gain_closed [of s dev g]
  by (simp add: update_settings_response update_settings_gain_only update_settings_empty)

theorem update_settings_gain_roundtrip_witness:
  "cam_is_open streaming_world
   \<and> cs_gain streaming_world = 50
   \<and> cs_gain (snd (update_settings steady_device
       \<lparr>req_gain = Some 60, req_photo_exposure = None, req_video_exposure = None\<rparr> streaming_world)) = 60
   \<and> resp_gain (fst (update_settings steady_device
       \<lparr>req_gain = Some 60, req_photo_exposure = None, req_video_exposure = None\<rparr> streaming_world)) = 60
   \<and> ASISetControlValue 0 ASI_GAIN 60 ASI_FALSE
       \<in> set (trace (snd (update_settings steady_device
             \<lparr>req_gain = Some 60, req_photo_exposure = None, req_video_exposure = None\<rparr> streaming_world)))
   \<and> cs_streaming (snd (update_settings steady_device
       \<lparr>req_gain = Some 60, req_photo_exposure = None, req_video_exposure = None\<rparr> streaming_world))
   \<and> fst (update_settings steady_device
       \<lparr>req_gain = None, req_photo_exposure = None, req_video_exposure = None\<rparr>
       (snd (update_settings steady_device
          \<lparr>req_gain = Some 60, req_photo_exposure = None, req_video_exposure = None\<rparr> streaming_world)))
     = \<lparr>resp_success = True, resp_gain = 60, resp_exposure = 1000000, resp_video_exposure = 100000\<rparr>
   \<and> fst (update_settings steady_device
       \<lparr>req_gain = Some 60, req_photo_exposure = None, req_video_exposure = None\<rparr>
       (snd (update_settings steady_device
          \<lparr>req_gain = Some 60, req_photo_exposure = None, req_video_exposure = None\<rparr> streaming_world)))
     = \<lparr>resp_success = True, resp_gain = 60, resp_exposure = 1000000, resp_video_exposure = 100000\<rparr>
   \<and> cam_is_open connected_world \<and> \<not> cs_streaming connected_world
   \<and> trace (snd (update_settings steady_device
       \<lparr>req_gain = Some 60, req_photo_exposure = None, req_video_exposure = None\<rparr> connected_world))
     = trace connected_world @ [ASISetControlValue 0 ASI_GAIN 60 ASI_FALSE, ASIGetControlValue 0 ASI_GAIN]
   \<and> \<not> cam_is_open initial_world
   \<and> snd (update_settings steady_device
       \<lparr>req_gain = Some 60, req_photo_exposure = None, req_video_exposure = None\<rparr> initial_world)
     = initial_world\<lparr>cs_gain := 60\<rparr>"
  using update_settings_gain_roundtrip [of steady_device 60 streaming_world steady_device]
    update_settings_gain_roundtrip [of steady_device 60 connected_world steady_device]
    update_settings_gain_roundtrip [of steady_device 60 initial_world steady_device]
  by (simp add: update_settings_def stop_stream_def start_stream_def steady_device_def
      streaming_world_def connected_world_def initial_world_def call_def Let_def)

section \<open>Who writes the frame buffers\<close>

lemma connect_frame_buffer:
  "cam_frame_buffer (snd (connect dev s)) = cam_frame_buffer s"
  by (simp add: connect_def Let_def split: prod.splits)

lemma disconnect_frame_buffer:
  "cam_frame_buffer (disconnect s) = cam_frame_buffer s"
  by (simp add: disconnect_def Let_def)

lemma update_settings_frame_buffer:
  "cam_frame_buffer (snd (update_settings dev data s)) = cam_frame_buffer s"
  by (simp add: update_settings_def Let_def split: option.splits)

lemma capture_loop_body_frame_buffer:
  "cam_frame_buffer (snd (capture_loop_body dev l s)) =
     (if sdk_result dev (trace s)
           (ASIGetVideoData (cam_camera_id s) (ll_buffer_size l) (timeout_ms (cs_video_exposure s)))
         = ASI_SUCCESS
      then Some (Image (ll_width l) (ll_height l) (sdk_buffer dev (trace s)))
      else cam_frame_buffer s)"
  by (simp add: capture_loop_body_def Let_def)

text \<open>A step that stores no frame leaves both buffers as they were.\<close>

lemma step_keeps_frames:
  "\<not> stores_frame dev a s \<Longrightarrow>
   cs_current_frame (step dev a s) = cs_current_frame s
   \<and> cam_frame_buffer (step dev a s) = cam_frame_buffer s"
proof (cases a)
  case DoSnapshot
  then show ?thesis using snapshot_only_frames [of dev s] by simp
next
  case (DoLoopPass l)
  assume "\<not> stores_frame dev a s"
  then show ?thesis
    using DoLoopPass
    by (auto simp add: capture_loop_body_current_frame capture_loop_body_frame_buffer)
qed (simp_all add: connect_current_frame disconnect_current_frame update_settings_current_frame
       connect_frame_buffer disconnect_frame_buffer update_settings_frame_buffer)

text \<open>A step that stores a frame is a pass of the loop, and it writes both buffers.\<close>

lemma step_stores_frames:
  "stores_frame dev a s \<Longrightarrow>
   \<exists>l. a = DoLoopPass l
     \<and> cs_current_frame (step dev a s) =
         Some (Image (ll_width l) (ll_height l) (sdk_buffer dev (trace s)))
     \<and> cam_frame_buffer (step dev a s) =
         Some (Image (ll_width l) (ll_height l) (sdk_buffer dev (trace s)))"
  by (cases a)
     (simp_all add: capture_loop_body_current_frame capture_loop_body_frame_buffer)

theorem capture_snapshot_stores_frame_counterexample:
  "fst (capture_snapshot steady_device connected_world) = Some (Image 2 1 [10, 20, 30, 40, 50, 60])
   \<and> cs_current_frame (snd (capture_snapshot steady_device connected_world)) \<noteq> Some (Image 2 1 [10, 20, 30, 40, 50, 60])
   \<and> cam_frame_buffer (snd (capture_snapshot steady_device connected_world)) \<noteq> Some (Image 2 1 [10, 20, 30, 40, 50, 60])
   \<and> fst (snapshot steady_device connected_world) = SnapshotJpeg (Image 2 1 [10, 20, 30, 40, 50, 60])
   \<and> cs_current_frame (snd (snapshot steady_device connected_world)) = None
   \<and> cam_frame_buffer (snd (snapshot steady_device connected_world)) = None"
  by (simp add: snapshot_def capture_steady Let_def) (simp add: connected_world_def)

text \<open>
  C2, as the code has it. The claim: after a successful capture the shared
  current-frame buffer holds the returned image. In the source neither
  \<^verbatim>\<open>capture_snapshot\<close> nor the snapshot handler assigns \<^verbatim>\<open>camera_state['current_frame']\<close>
  or \<^verbatim>\<open>frame_buffer\<close>: the image is only returned, and both buffers keep the value
  they had. Only the video-pull loop writes them: a request, or a pass of the loop
  that is not entered or whose read fails, leaves both buffers unchanged, and a step
  that stores a frame is a pass of the loop, which sets both buffers to the frame read.
\<close>

theorem capture_snapshot_keeps_last_frame:
  "cs_current_frame (snd (capture_snapshot dev s)) = cs_current_frame s
   \<and> cam_frame_buffer (snd (capture_snapshot dev s)) = cam_frame_buffer s
   \<and> cs_current_frame (snd (snapshot dev s)) = cs_current_frame s
   \<and> cam_frame_buffer (snd (snapshot dev s)) = cam_frame_buffer s
   \<and> \<not> stores_frame dev DoConnect s \<and> \<not> stores_frame dev DoDisconnect s
   \<and> \<not> stores_frame dev DoStartStream s \<and> \<not> stores_frame dev DoStopStream s
   \<and> \<not> stores_frame dev DoSnapshot s \<and> \<not> stores_frame dev (DoSettings data) s
   \<and> (\<not> stores_frame dev a s \<longrightarrow>
        cs_current_frame (step dev a s) = cs_current_frame s
        \<and> cam_frame_buffer (step dev a s) = cam_frame_buffer s)
   \<and> (stores_frame dev a s \<longrightarrow>
        (\<exists>l. a = DoLoopPass l
           \<and> cs_current_frame (step dev a s) =
               Some (Image (ll_width l) (ll_height l) (sdk_buffer dev (trace s)))
           \<and> cam_frame_buffer (step dev a s) =
               Some (Image (ll_width l) (ll_height l) (sdk_buffer dev (trace s)))))"
  using only_trace_fields [OF capture_snapshot_only_trace [of s dev]] snapshot_only_frames [of dev s]
    step_keeps_frames [of dev a s] step_stores_frames [of dev a s]
  by simp

theorem capture_snapshot_keeps_last_frame_witness:
  "cs_connected connected_world \<and> cam_is_open connected_world
   \<and> fst (snapshot steady_device connected_world) = SnapshotJpeg (Image 2 1 [10, 20, 30, 40, 50, 60])
   \<and> cs_current_frame (snd (snapshot steady_device connected_world)) = cs_current_frame connected_world
   \<and> cam_frame_buffer (snd (snapshot steady_device connected_world)) = cam_frame_buffer connected_world
   \<and> cs_current_frame (snd (capture_snapshot steady_device connected_world)) = None
   \<and> \<not> stores_frame steady_device DoSnapshot connected_world
   \<and> cs_current_frame (step steady_device DoSnapshot connected_world) = None
   \<and> cam_frame_buffer (step steady_device DoSnapshot connected_world) = None
   \<and> stores_frame steady_device (DoLoopPass (loop_entry streaming_world)) streaming_world
   \<and> cs_current_frame (step steady_device (DoLoopPass (loop_entry streaming_world)) streaming_world)
       = Some (Image 2 1 [10, 20, 30, 40, 50, 60])
   \<and> cam_frame_buffer (step steady_device (DoLoopPass (loop_entry streaming_world)) streaming_world)
       = Some (Image 2 1 [10, 20, 30, 40, 50, 60])"
proof -
  have st: "stores_frame steady_device (DoLoopPass (loop_entry streaming_world)) streaming_world"
    by (simp add: loop_guard_def streaming_world_def connected_world_def steady_device_def)
  have le: "ll_width (loop_entry streaming_world) = 2" "ll_height (loop_entry streaming_world) = 1"
    by (simp_all add: loop_entry_def streaming_world_def connected_world_def)
  have buf: "sdk_buffer steady_device (trace streaming_world) = [10, 20, 30, 40, 50, 60]"
    by (simp add: steady_device_def)
  have none: "cs_current_frame connected_world = None" "cam_frame_buffer connected_world = None"
    "cs_connected connected_world" "cam_is_open connected_world"
    "\<not> cam_streaming connected_world"
    by (simp_all add: connected_world_def)
  have snap: "fst (snapshot steady_device connected_world) = SnapshotJpeg (Image 2 1 [10, 20, 30, 40, 50, 60])"
    using none by (simp add: snapshot_def capture_steady Let_def)
  show ?thesis
    using st le buf none snap
      capture_snapshot_keeps_last_frame [of steady_device connected_world _ DoSnapshot]
      capture_snapshot_keeps_last_frame [of steady_device streaming_world _
        "DoLoopPass (loop_entry streaming_world)"]
    by auto
qed

end
